theory Spec2Isabelle
  imports Complex_Main
begin

section \<open>Resonance kinematics generator: data model\<close>

text \<open>
  The development embeds \<^verbatim>\<open>src/EVGModules/RESKinematicsGenerator.cxx\<close>.
  A C++ \<^verbatim>\<open>double\<close> is modelled as a \<^typ>\<open>real\<close>: arithmetic is exact, so rounding,
  infinities and NaN are outside the model. Every collaborator whose code is not part of
  the embedded file (the cross section model, the kinematic limits, the random number
  generators, the envelope function, the constants of the conventions headers) is a field of
  the record \<open>Externals\<close> and stays arbitrary in every theorem.
\<close>

record Range1D_t =
  rmin :: real
  rmax :: real

datatype KineVar_t = kKVW | kKVQ2 | kKVx | kKVy

datatype InteractionBit = kISkipProcessChk | kISkipKinematicChk

datatype GHepFlag = kNoAvailablePhaseSpace | kNoValidKinematics

type_synonym Resonance_t = nat

text \<open>
  The interaction: the probe energy and struck nucleon mass of its initial state, its
  exclusive tag (a resonance, when known), its trust bits, and its kinematics.
  Modelled from the spec: the class Kinematics is not part of the embedded file; following
  the data model of the spec it holds running (candidate) values and locked (selected)
  values per kinematic variable.
\<close>

record Interaction =
  ProbeE :: real
  StruckNucleonM :: real
  ExclusiveTag :: "Resonance_t option"
  bits :: "InteractionBit set"
  running :: "KineVar_t \<rightharpoonup> real"
  selected :: "KineVar_t \<rightharpoonup> real"

definition SetBit :: "InteractionBit \<Rightarrow> Interaction \<Rightarrow> Interaction" where
  "SetBit b i = i\<lparr>bits := insert b (bits i)\<rparr>"

definition ResetBit :: "InteractionBit \<Rightarrow> Interaction \<Rightarrow> Interaction" where
  "ResetBit b i = i\<lparr>bits := bits i - {b}\<rparr>"

text \<open>
  Modelled from the spec: the setters of Kinematics. A setter stores the running value and,
  when called with the flag \<open>true\<close>, locks the value as final as well.
\<close>

definition SetKV :: "KineVar_t \<Rightarrow> real \<Rightarrow> bool \<Rightarrow> Interaction \<Rightarrow> Interaction" where
  "SetKV kv v sel i =
     (let i1 = i\<lparr>running := (running i)(kv \<mapsto> v)\<rparr>
      in if sel then i1\<lparr>selected := (selected i1)(kv \<mapsto> v)\<rparr> else i1)"

definition SetW :: "real \<Rightarrow> bool \<Rightarrow> Interaction \<Rightarrow> Interaction" where
  "SetW = SetKV kKVW"

definition SetQ2 :: "real \<Rightarrow> bool \<Rightarrow> Interaction \<Rightarrow> Interaction" where
  "SetQ2 = SetKV kKVQ2"

definition Setx :: "real \<Rightarrow> bool \<Rightarrow> Interaction \<Rightarrow> Interaction" where
  "Setx = SetKV kKVx"

definition Sety :: "real \<Rightarrow> bool \<Rightarrow> Interaction \<Rightarrow> Interaction" where
  "Sety = SetKV kKVy"

text \<open>Modelled from the spec: clearing the running values drops every candidate value.\<close>

definition ClearRunningValues :: "Interaction \<Rightarrow> Interaction" where
  "ClearRunningValues i = i\<lparr>running := Map.empty\<rparr>"

text \<open>The part of the event record the generator reads and writes.\<close>

record GHepRecord =
  interaction :: Interaction
  EventFlags :: "GHepFlag set"
  DiffXSec :: real
  XSec_tot :: real
  Weight :: real

record EVGThreadException =
  reason :: string
  fast_forward :: bool

text \<open>
  The two-dimensional envelope function object (a ROOT \<^verbatim>\<open>TF2\<close>): its range and its four
  parameters.
\<close>

record TF2 =
  xmin :: real
  ymin :: real
  xmax :: real
  ymax :: real
  par0 :: real
  par1 :: real
  par2 :: real
  par3 :: real

text \<open>
  The mutable state of the generator besides the event record: the envelope member, the cache
  of maximum cross sections, and the positions reached in the two random streams
  (\<^verbatim>\<open>RndKine\<close> and the stream behind \<^verbatim>\<open>GetRandom2\<close>).
\<close>

record GenState =
  fEnvelope :: TF2
  cache :: "nat \<rightharpoonup> real"
  rnd_pos :: nat
  env_pos :: nat

text \<open>The private data members loaded from the configuration.\<close>

record Config =
  fWmin :: real
  fWmax :: real
  fQ2min :: real
  fQ2max :: real
  fSafetyFactor :: real
  fEMin :: real
  fWcut :: real
  fMaxXSecDiffTolerance :: real
  fGenerateUniformly :: bool

text \<open>
  The collaborators and constants that the embedded file uses and does not define.
  \<open>RndKine n\<close> is the \<open>n\<close>-th value of the kinematics random stream and
  \<open>GetRandom2 f n\<close> the \<open>n\<close>-th pair sampled from the envelope \<open>f\<close>.
\<close>

record Externals =
  KineRange :: "KineVar_t \<Rightarrow> Interaction \<Rightarrow> Range1D_t"
  XSec :: "Interaction \<Rightarrow> real"
  Jacobian :: "Interaction \<Rightarrow> real"
  PhaseSpaceVolume :: "Interaction \<Rightarrow> real"
  Q2toQD2 :: "real \<Rightarrow> real"
  QD2toQ2 :: "real \<Rightarrow> real"
  WQ2toXY :: "real \<Rightarrow> real \<Rightarrow> real \<Rightarrow> real \<Rightarrow> real \<times> real"
  res_Mass :: "Resonance_t \<Rightarrow> real"
  RndKine :: "nat \<Rightarrow> real"
  EnvelopeEval :: "TF2 \<Rightarrow> real \<Rightarrow> real \<Rightarrow> real"
  GetRandom2 :: "TF2 \<Rightarrow> nat \<Rightarrow> real \<times> real"
  CacheKey :: "Interaction \<Rightarrow> nat"
  kASmallNum :: real
  kMinQ2Limit :: real
  kRjMaxIterations :: nat

section \<open>Configuration\<close>

text \<open>
  \<^verbatim>\<open>LoadConfigData\<close>: every option has a default; the global parameter list supplies the
  default of \<^verbatim>\<open>Wcut\<close>. The assertion on the tolerance is the value \<open>None\<close>.
\<close>

definition GetDoubleDef :: "(string \<rightharpoonup> real) \<Rightarrow> string \<Rightarrow> real \<Rightarrow> real" where
  "GetDoubleDef reg key def = (case reg key of None \<Rightarrow> def | Some v \<Rightarrow> v)"

definition GetBoolDef :: "(string \<rightharpoonup> bool) \<Rightarrow> string \<Rightarrow> bool \<Rightarrow> bool" where
  "GetBoolDef reg key def = (case reg key of None \<Rightarrow> def | Some v \<Rightarrow> v)"

definition LoadConfigData ::
  "(string \<rightharpoonup> real) \<Rightarrow> (string \<rightharpoonup> bool) \<Rightarrow> real \<Rightarrow> Config option" where
  "LoadConfigData dreg breg global_Wcut =
     (let tol = GetDoubleDef dreg ''max-xsec-diff-tolerance'' 0
      in if \<not> tol \<ge> 0 then None
         else Some \<lparr>fWmin = GetDoubleDef dreg ''W-min'' (- 999999),
                    fWmax = GetDoubleDef dreg ''W-max'' 999999,
                    fQ2min = GetDoubleDef dreg ''Q2-min'' (- 999999),
                    fQ2max = GetDoubleDef dreg ''Q2-max'' 999999,
                    fSafetyFactor = GetDoubleDef dreg ''max-xsec-safety-factor'' 1.25,
                    fEMin = GetDoubleDef dreg ''min-energy-cached'' 1.0,
                    fWcut = GetDoubleDef dreg ''Wcut'' global_Wcut,
                    fMaxXSecDiffTolerance = tol,
                    fGenerateUniformly = GetBoolDef breg ''uniform-over-phase-space'' False\<rparr>)"

section \<open>Phase space bounds\<close>

text \<open>
  Modelled from the spec: \<^verbatim>\<open>kinematics::ApplyCutsToKineLimits\<close> is not part of the
  embedded file. By the spec the user cuts are intersected with the physical range, and a
  cut outside the physical range is clamped to the physical boundary.
\<close>

definition clamp :: "real \<Rightarrow> real \<Rightarrow> real \<Rightarrow> real" where
  "clamp lo hi x = max lo (min hi x)"

definition ApplyCutsToKineLimits :: "Range1D_t \<Rightarrow> real \<Rightarrow> real \<Rightarrow> Range1D_t" where
  "ApplyCutsToKineLimits r min_cut max_cut =
     \<lparr>rmin = clamp (rmin r) (rmax r) min_cut, rmax = clamp (rmin r) (rmax r) max_cut\<rparr>"

text \<open>
  Modelled from the spec: \<^verbatim>\<open>math::IsWithinLimits\<close> is not part of the embedded file; a value
  lies inside a range when it is between its two ends.
\<close>

definition IsWithinLimits :: "real \<Rightarrow> Range1D_t \<Rightarrow> bool" where
  "IsWithinLimits x r = (rmin r \<le> x \<and> x \<le> rmax r)"

definition WRange :: "Config \<Rightarrow> Externals \<Rightarrow> Interaction \<Rightarrow> Range1D_t" where
  "WRange cfg ext i =
     (let W = KineRange ext kKVW i;
          W1 = ApplyCutsToKineLimits W (fWmin cfg) (fWmax cfg)
      in W1\<lparr>rmax := min (fWcut cfg) (rmax W1)\<rparr>)"

definition Q2Range :: "Config \<Rightarrow> Externals \<Rightarrow> Interaction \<Rightarrow> Range1D_t" where
  "Q2Range cfg ext i =
     (let Q2 = KineRange ext kKVQ2 i
      in ApplyCutsToKineLimits Q2 (fQ2min cfg) (fQ2max cfg))"

section \<open>Search for the maximum cross section\<close>

definition NQ2 :: nat where
  "NQ2 = 15"

definition kNQ2b :: nat where
  "kNQ2b = 3"

text \<open>
  The local variables of the scan that live across iterations, the interaction the scan
  writes the current point to, and the debug log of the sampled points (one entry
  \<open>(W, Q2, xsec)\<close> per evaluation of the cross section).
\<close>

record ScanState =
  max_xsec :: real
  xseclast :: real
  dlogQ2 :: real
  scan_int :: Interaction
  scan_log :: "(real \<times> real \<times> real) list"

text \<open>
  The inner loop: \<open>n\<close> steps are left, \<open>Q2\<close> is the current point. A point below the lower
  end of the range is passed over without evaluating the cross section.
\<close>

fun BackwardSteps :: "Externals \<Rightarrow> real \<Rightarrow> real \<Rightarrow> nat \<Rightarrow> real \<Rightarrow> ScanState \<Rightarrow> ScanState" where
  "BackwardSteps ext W q2min 0 Q2 s = s"
| "BackwardSteps ext W q2min (Suc n) Q2 s =
     (let Q2' = exp (ln Q2 - dlogQ2 s)
      in if Q2' < q2min then BackwardSteps ext W q2min n Q2' s
         else let i = SetQ2 Q2' False (scan_int s);
                  xsec = XSec ext i
              in BackwardSteps ext W q2min n Q2'
                   (s\<lparr>scan_int := i,
                      scan_log := scan_log s @ [(W, Q2', xsec)],
                      max_xsec := max xsec (max_xsec s)\<rparr>))"

text \<open>The loop over the logarithmic grid, entered at index \<open>iq2\<close>.\<close>

function GridScan :: "Externals \<Rightarrow> real \<Rightarrow> real \<Rightarrow> real \<Rightarrow> nat \<Rightarrow> ScanState \<Rightarrow> ScanState" where
  "GridScan ext W q2min logQ2min iq2 s =
     (if iq2 < NQ2 then
        (let Q2 = exp (logQ2min + real iq2 * dlogQ2 s);
             i = SetQ2 Q2 False (scan_int s);
             xsec = XSec ext i;
             increasing = (xsec - xseclast s \<ge> 0);
             s1 = s\<lparr>scan_int := i,
                    scan_log := scan_log s @ [(W, Q2, xsec)],
                    max_xsec := max xsec (max_xsec s),
                    xseclast := xsec\<rparr>
         in if \<not> increasing
            then BackwardSteps ext W q2min kNQ2b Q2 (s1\<lparr>dlogQ2 := dlogQ2 s1 / real kNQ2b\<rparr>)
            else GridScan ext W q2min logQ2min (iq2 + 1) s1)
      else s)"
  by pat_completeness auto
termination
  by (relation "measure (\<lambda>(ext, W, q2min, logQ2min, iq2, s). NQ2 - iq2)") auto

declare GridScan.simps [simp del]

text \<open>
  The first part of \<^verbatim>\<open>ComputeMaxXSec\<close>, up to the end of the grid loop: \<open>None\<close> is the early
  return on a degenerate Q2 range (with the interaction as it is left), otherwise the state
  of the scan when the loop ends.
\<close>

definition ScanPhaseSpace :: "Config \<Rightarrow> Externals \<Rightarrow> Interaction \<Rightarrow> Interaction \<times> ScanState option" where
  "ScanPhaseSpace cfg ext i =
     (let md = (case ExclusiveTag i of None \<Rightarrow> 1.23 | Some res \<Rightarrow> res_Mass ext res);
          rW = WRange cfg ext i;
          W = (if IsWithinLimits md rW then md
               else if md \<ge> rmax rW then rmax rW - kASmallNum ext
               else rmin rW + kASmallNum ext);
          i1 = SetW W False i;
          rQ2 = Q2Range cfg ext i1
      in if rmax rQ2 < kMinQ2Limit ext \<or> rmin rQ2 \<le> 0 then (i1, None)
         else
           (let logQ2min = ln (rmin rQ2 + kASmallNum ext);
                logQ2max = ln (rmax rQ2 - kASmallNum ext);
                dlog = (logQ2max - logQ2min) / real (NQ2 - 1)
            in (i1, Some (GridScan ext W (rmin rQ2) logQ2min 0
                     \<lparr>max_xsec = 0, xseclast = - 1, dlogQ2 = dlog,
                      scan_int = i1, scan_log = []\<rparr>))))"

text \<open>
  \<^verbatim>\<open>ComputeMaxXSec\<close>: the value returned and the interaction as the scan leaves it.
\<close>

definition ComputeMaxXSec :: "Config \<Rightarrow> Externals \<Rightarrow> Interaction \<Rightarrow> real \<times> Interaction" where
  "ComputeMaxXSec cfg ext i =
     (let E = ProbeE i
      in case ScanPhaseSpace cfg ext i of
           (i1, None) \<Rightarrow> (0, i1)
         | (i1, Some s) \<Rightarrow> (max_xsec s * (if E < 0.8 then 2 else fSafetyFactor cfg), scan_int s))"

section \<open>Kinematic selection\<close>

text \<open>
  How a call of \<^verbatim>\<open>ProcessEventRecord\<close> ends: it returns, it throws an exception, one of
  its assertions fails, or the check of the cross section against the envelope stops
  the process. Assertions are taken as compiled in.
\<close>

datatype Outcome =
    Returned
  | Thrown EVGThreadException
  | AssertFailed
  | CeilingViolation
  | NonPositiveMaxXSec

definition NoAvailablePhaseSpaceException :: EVGThreadException where
  "NoAvailablePhaseSpaceException = \<lparr>reason = ''No available phase space'', fast_forward = True\<rparr>"

definition KinematicSelectionExhausted :: EVGThreadException where
  "KinematicSelectionExhausted =
     \<lparr>reason = ''Couldn'' @ [CHR 0x27] @ ''t select kinematics'', fast_forward = True\<rparr>"

text \<open>
  Modelled from the spec: \<^verbatim>\<open>KineGeneratorWithCache::AssertXSecLimits\<close> is not part of the
  embedded file. By the spec the check passes when the cross section does not exceed the
  ceiling by more than the configured fraction of the ceiling.
\<close>

definition AssertXSecLimits :: "Config \<Rightarrow> real \<Rightarrow> real \<Rightarrow> bool" where
  "AssertXSecLimits cfg xsec xsec_max =
     (xsec \<le> xsec_max \<or> xsec - xsec_max \<le> fMaxXSecDiffTolerance cfg * xsec_max)"

text \<open>
  Modelled from the spec: \<^verbatim>\<open>KineGeneratorWithCache::MaxXSec\<close> is not part of the embedded
  file. By the spec an energy below the configured minimum bypasses the cache, a cached
  value is returned as it is, and a miss runs the search and stores its result; by the
  comment at the call a value that is not positive ends the call with an exception.
\<close>

definition MaxXSec :: "Config \<Rightarrow> Externals \<Rightarrow> GenState \<Rightarrow> GHepRecord \<Rightarrow> real option \<times> GenState \<times> GHepRecord" where
  "MaxXSec cfg ext gs ev =
     (let i = interaction ev;
          (m, gs1, ev1) =
            (if ProbeE i < fEMin cfg
             then (let (v, i1) = ComputeMaxXSec cfg ext i in (v, gs, ev\<lparr>interaction := i1\<rparr>))
             else (case cache gs (CacheKey ext i) of
                     Some v \<Rightarrow> (v, gs, ev)
                   | None \<Rightarrow>
                       (let (v, i1) = ComputeMaxXSec cfg ext i
                        in (v, gs\<lparr>cache := (cache gs)(CacheKey ext i \<mapsto> v)\<rparr>,
                            ev\<lparr>interaction := i1\<rparr>))))
      in if m > 0 then (Some m, gs1, ev1) else (None, gs1, ev1))"

text \<open>
  The uniform branch of one iteration (source lines 119 to 128): \<open>None\<close> is the
  \<^verbatim>\<open>continue\<close>, otherwise the candidate \<open>(gW, gQ2, gQD2)\<close>.
\<close>

definition GenerateUniform ::
  "Config \<Rightarrow> Externals \<Rightarrow> real \<Rightarrow> real \<Rightarrow> GenState \<Rightarrow> GHepRecord
     \<Rightarrow> (real \<times> real \<times> real) option \<times> GenState \<times> GHepRecord" where
  "GenerateUniform cfg ext Wmin dW gs ev =
     (let gW = Wmin + dW * RndKine ext (rnd_pos gs);
          gs1 = gs\<lparr>rnd_pos := rnd_pos gs + 1\<rparr>;
          Q2 = Q2Range cfg ext (interaction ev)
      in if rmax Q2 \<le> 0 \<or> rmin Q2 \<ge> rmax Q2 then (None, gs1, ev)
         else
           (let gQ2 = rmin Q2 + (rmax Q2 - rmin Q2) * RndKine ext (rnd_pos gs1);
                gs2 = gs1\<lparr>rnd_pos := rnd_pos gs1 + 1\<rparr>
            in (Some (gW, gQ2, 0), gs2,
                ev\<lparr>interaction := SetBit kISkipKinematicChk (interaction ev)\<rparr>)))"

text \<open>
  The importance sampling branch (source lines 130 to 169): the envelope is set up on the
  first iteration, then a pair is sampled from it.
\<close>

definition GenerateImportance ::
  "Config \<Rightarrow> Externals \<Rightarrow> nat \<Rightarrow> real \<Rightarrow> real \<Rightarrow> real \<Rightarrow> GenState \<Rightarrow> GHepRecord
     \<Rightarrow> (real \<times> real \<times> real) option \<times> GenState \<times> GHepRecord" where
  "GenerateImportance cfg ext iter Wmin Wmax xsec_max gs ev =
     (let (gs1, ev1) =
            (if iter = 1 then
               (let i1 = SetW Wmin False (interaction ev);
                    Q2 = Q2Range cfg ext i1;
                    Q2min = 0 + kASmallNum ext;
                    Q2max = rmax Q2 - kASmallNum ext;
                    QD2min = Q2toQD2 ext Q2max;
                    QD2max = Q2toQD2 ext Q2min;
                    (mR, gR) = (case ExclusiveTag i1 of
                                  None \<Rightarrow> (1.2, 0.6)
                                | Some res \<Rightarrow> (res_Mass ext res, 0.220))
                in (gs\<lparr>fEnvelope := \<lparr>xmin = QD2min, ymin = Wmin, xmax = QD2max, ymax = Wmax,
                                      par0 = mR, par1 = gR, par2 = xsec_max, par3 = Wmax\<rparr>\<rparr>,
                    ev\<lparr>interaction := i1\<rparr>))
             else (gs, ev));
          (gQD2, gW) = GetRandom2 ext (fEnvelope gs1) (env_pos gs1);
          gs2 = gs1\<lparr>env_pos := env_pos gs1 + 1\<rparr>;
          gQ2 = QD2toQ2 ext gQD2
      in (Some (gW, gQ2, gQD2), gs2, ev1))"

text \<open>
  The block run on acceptance (source lines 197 to 237): the trust bits are reset, x and y
  are derived, the cross section is stored, the weight is applied in uniform mode, the four
  kinematic values are locked and the running values are cleared.
\<close>

definition AcceptKinematics ::
  "Config \<Rightarrow> Externals \<Rightarrow> real \<Rightarrow> real \<Rightarrow> real \<Rightarrow> GHepRecord \<Rightarrow> GHepRecord" where
  "AcceptKinematics cfg ext gW gQ2 xsec ev =
     (let i1 = ResetBit kISkipKinematicChk (ResetBit kISkipProcessChk (interaction ev));
          E = ProbeE i1;
          M = StruckNucleonM i1;
          (gx, gy) = WQ2toXY ext E M gW gQ2;
          ev1 = ev\<lparr>interaction := i1, DiffXSec := xsec\<rparr>;
          ev2 = (if fGenerateUniformly cfg then
                   (let vol = PhaseSpaceVolume ext i1;
                        totxsec = XSec_tot ev1;
                        wght = (vol / totxsec) * xsec;
                        wght' = wght * Weight ev1
                    in ev1\<lparr>Weight := wght'\<rparr>)
                 else ev1);
          i3 = ClearRunningValues
                 (Sety gy True (Setx gx True (SetW gW True (SetQ2 gQ2 True (interaction ev2)))))
      in ev2\<lparr>interaction := i3\<rparr>)"

text \<open>
  How an iteration of the loop ends once the counter has been checked: the loop goes on, or
  the call ends with an outcome.
\<close>

datatype TrialResult =
    Continue GenState GHepRecord
  | Done Outcome GenState GHepRecord

text \<open>
  The second half of an iteration (source lines 171 to 238): the candidate is written to the
  interaction, the cross section is computed there, and the candidate is accepted or not.
\<close>

definition TryCandidate ::
  "Config \<Rightarrow> Externals \<Rightarrow> real \<Rightarrow> real \<Rightarrow> real \<Rightarrow> GenState \<Rightarrow> GHepRecord \<Rightarrow> TrialResult" where
  "TryCandidate cfg ext gW gQ2 gQD2 gs1 ev1 =
     (let i2 = SetQ2 gQ2 False (SetW gW False (interaction ev1));
          ev2 = ev1\<lparr>interaction := i2\<rparr>;
          xsec = XSec ext i2
      in if \<not> fGenerateUniformly cfg then
           (let mx = EnvelopeEval ext (fEnvelope gs1) gQD2 gW;
                t = mx * RndKine ext (rnd_pos gs1);
                gs2 = gs1\<lparr>rnd_pos := rnd_pos gs1 + 1\<rparr>;
                J = Jacobian ext i2
            in if \<not> AssertXSecLimits cfg xsec mx then Done CeilingViolation gs2 ev2
               else if t < J * xsec
                    then Done Returned gs2 (AcceptKinematics cfg ext gW gQ2 xsec ev2)
                    else Continue gs2 ev2)
         else if xsec > 0
              then Done Returned gs1 (AcceptKinematics cfg ext gW gQ2 xsec ev2)
              else Continue gs1 ev2)"

text \<open>One iteration of the loop after the check of the counter.\<close>

definition Trial ::
  "Config \<Rightarrow> Externals \<Rightarrow> real \<Rightarrow> real \<Rightarrow> real \<Rightarrow> real \<Rightarrow> nat \<Rightarrow> GenState \<Rightarrow> GHepRecord \<Rightarrow> TrialResult" where
  "Trial cfg ext Wmin Wmax dW xsec_max iter gs ev =
     (case (if fGenerateUniformly cfg then GenerateUniform cfg ext Wmin dW gs ev
            else GenerateImportance cfg ext iter Wmin Wmax xsec_max gs ev) of
        (None, gs1, ev1) \<Rightarrow> Continue gs1 ev1
      | (Some (gW, gQ2, gQD2), gs1, ev1) \<Rightarrow> TryCandidate cfg ext gW gQ2 gQD2 gs1 ev1)"

text \<open>
  The loop. The counter is a 32 bit unsigned integer, so the increment wraps. Since the
  loop has no other exit, not returning is the value \<open>None\<close>.
\<close>

partial_function (option) RejectionLoop ::
  "Config \<Rightarrow> Externals \<Rightarrow> real \<Rightarrow> real \<Rightarrow> real \<Rightarrow> real \<Rightarrow> nat \<Rightarrow> GenState \<Rightarrow> GHepRecord
     \<Rightarrow> (Outcome \<times> GenState \<times> GHepRecord) option" where
  "RejectionLoop cfg ext Wmin Wmax dW xsec_max iter gs ev =
     (let iter' = (iter + 1) mod 2 ^ 32
      in if iter' > kRjMaxIterations ext
         then Some (Thrown KinematicSelectionExhausted, gs,
                    ev\<lparr>EventFlags := insert kNoValidKinematics (EventFlags ev)\<rparr>)
         else (case Trial cfg ext Wmin Wmax dW xsec_max iter' gs ev of
                 Continue gs' ev' \<Rightarrow> RejectionLoop cfg ext Wmin Wmax dW xsec_max iter' gs' ev'
               | Done out gs' ev' \<Rightarrow> Some (out, gs', ev')))"

definition ProcessEventRecord ::
  "Config \<Rightarrow> Externals \<Rightarrow> GenState \<Rightarrow> GHepRecord \<Rightarrow> (Outcome \<times> GenState \<times> GHepRecord) option" where
  "ProcessEventRecord cfg ext gs ev =
     (let ev1 = ev\<lparr>interaction := SetBit kISkipProcessChk (interaction ev)\<rparr>;
          W = WRange cfg ext (interaction ev1)
      in if \<not> (rmin W \<ge> 0 \<and> rmin W < rmax W) then Some (AssertFailed, gs, ev1)
         else if rmax W \<le> 0 \<or> rmin W \<ge> rmax W
         then Some (Thrown NoAvailablePhaseSpaceException, gs,
                    ev1\<lparr>EventFlags := insert kNoAvailablePhaseSpace (EventFlags ev1)\<rparr>)
         else (case (if fGenerateUniformly cfg then (Some (- 1), gs, ev1)
                     else MaxXSec cfg ext gs ev1) of
                 (None, gs2, ev2) \<Rightarrow> Some (NonPositiveMaxXSec, gs2, ev2)
               | (Some xsec_max, gs2, ev2) \<Rightarrow>
                   (let Wmin = rmin W + kASmallNum ext;
                        Wmax = rmax W - kASmallNum ext;
                        dW = Wmax - Wmin
                    in RejectionLoop cfg ext Wmin Wmax dW xsec_max 0 gs2 ev2)))"

section \<open>Notions used to state the properties\<close>

text \<open>
  The interaction \<open>i1\<close> has the locked kinematics of \<open>i\<close> and still holds a running
  value for every variable that has one in \<open>i\<close>: nothing was locked and nothing cleared.
\<close>

definition KeepsKinematics :: "Interaction \<Rightarrow> Interaction \<Rightarrow> bool" where
  "KeepsKinematics i i1 = (selected i1 = selected i \<and> dom (running i) \<subseteq> dom (running i1))"

text \<open>
  Two event records agree on what a selection commits: the kinematics are kept in the sense
  above, and the event weight, the total cross section and the event flags are the same.
\<close>

definition SameCommitted :: "GHepRecord \<Rightarrow> GHepRecord \<Rightarrow> bool" where
  "SameCommitted ev ev1 =
     (KeepsKinematics (interaction ev) (interaction ev1) \<and> Weight ev1 = Weight ev \<and>
      XSec_tot ev1 = XSec_tot ev \<and> EventFlags ev1 = EventFlags ev)"

text \<open>
  What is known of a result \<open>r\<close> of the loop entered with the record \<open>ev\<close>: the loop
  reached a record that agrees with \<open>ev\<close> on what is committed, and there it either
  ran out of iterations or one iteration ended the call.
\<close>

definition LoopPost ::
  "Config \<Rightarrow> Externals \<Rightarrow> real \<Rightarrow> real \<Rightarrow> real \<Rightarrow> real \<Rightarrow> GHepRecord
     \<Rightarrow> Outcome \<times> GenState \<times> GHepRecord \<Rightarrow> bool" where
  "LoopPost cfg ext Wmin Wmax dW xm ev r =
     (\<exists>it gs1 ev1. SameCommitted ev ev1 \<and>
           (r = (Thrown KinematicSelectionExhausted, gs1,
                 ev1\<lparr>EventFlags := insert kNoValidKinematics (EventFlags ev1)\<rparr>) \<or>
            (\<exists>out gs' ev'. r = (out, gs', ev') \<and>
               Trial cfg ext Wmin Wmax dW xm it gs1 ev1 = Done out gs' ev')))"

text \<open>
  The record \<open>ev'\<close> is what the acceptance block makes of a record that agrees with \<open>ev\<close>
  on what is committed and holds the accepted pair as running values; in uniform mode the
  cross section there is positive.
\<close>

definition AcceptedAt :: "Config \<Rightarrow> Externals \<Rightarrow> GHepRecord \<Rightarrow> GHepRecord \<Rightarrow> bool" where
  "AcceptedAt cfg ext ev ev' =
     (\<exists>gW gQ2 ev2. SameCommitted ev ev2 \<and>
        running (interaction ev2) kKVW = Some gW \<and>
        running (interaction ev2) kKVQ2 = Some gQ2 \<and>
        (fGenerateUniformly cfg \<longrightarrow> 0 < XSec ext (interaction ev2)) \<and>
        ev' = AcceptKinematics cfg ext gW gQ2 (XSec ext (interaction ev2)) ev2)"

text \<open>
  The \<open>n\<close> iterations numbered \<open>iter + 1\<close> to \<open>iter + n\<close>, when none of them ends the
  call: the state they leave. \<open>None\<close> when one of them ends the call.
\<close>

fun RejectedTrials ::
  "Config \<Rightarrow> Externals \<Rightarrow> real \<Rightarrow> real \<Rightarrow> real \<Rightarrow> real \<Rightarrow> nat \<Rightarrow> nat \<Rightarrow> GenState \<Rightarrow> GHepRecord
     \<Rightarrow> (GenState \<times> GHepRecord) option" where
  "RejectedTrials cfg ext Wmin Wmax dW xm iter 0 gs ev = Some (gs, ev)"
| "RejectedTrials cfg ext Wmin Wmax dW xm iter (Suc n) gs ev =
     (case Trial cfg ext Wmin Wmax dW xm (iter + 1) gs ev of
        Continue gs' ev' \<Rightarrow> RejectedTrials cfg ext Wmin Wmax dW xm (iter + 1) n gs' ev'
      | Done out gs' ev' \<Rightarrow> None)"

text \<open>
  The \<open>k\<close>-th point of the logarithmic grid, the cross section sampled at a point, the
  sample at the \<open>k\<close>-th grid point of a scan entered in state \<open>s\<close>, and the sample the
  \<open>k\<close>-th one is compared with.
\<close>

definition GridPoint :: "real \<Rightarrow> real \<Rightarrow> nat \<Rightarrow> real" where
  "GridPoint logQ2min d k = exp (logQ2min + real k * d)"

definition SampleXSec :: "Externals \<Rightarrow> Interaction \<Rightarrow> real \<Rightarrow> real" where
  "SampleXSec ext i Q2 = XSec ext (SetQ2 Q2 False i)"

definition GridSample :: "Externals \<Rightarrow> ScanState \<Rightarrow> real \<Rightarrow> nat \<Rightarrow> real" where
  "GridSample ext s logQ2min k = SampleXSec ext (scan_int s) (GridPoint logQ2min (dlogQ2 s) k)"

definition PrevSample :: "Externals \<Rightarrow> ScanState \<Rightarrow> real \<Rightarrow> nat \<Rightarrow> real" where
  "PrevSample ext s logQ2min k =
     (if k = 0 then xseclast s else GridSample ext s logQ2min (k - 1))"

text \<open>The state of the scan once the \<open>k\<close>-th grid point has been sampled from state \<open>s\<close>.\<close>

definition GridStep :: "Externals \<Rightarrow> real \<Rightarrow> real \<Rightarrow> nat \<Rightarrow> ScanState \<Rightarrow> ScanState" where
  "GridStep ext W logQ2min k s =
     s\<lparr>scan_int := SetQ2 (GridPoint logQ2min (dlogQ2 s) k) False (scan_int s),
       scan_log := scan_log s @ [(W, GridPoint logQ2min (dlogQ2 s) k, GridSample ext s logQ2min k)],
       max_xsec := max (GridSample ext s logQ2min k) (max_xsec s),
       xseclast := GridSample ext s logQ2min k\<rparr>"

text \<open>
  The points reached by \<open>n\<close> backward steps of size \<open>d\<close> from \<open>Q2\<close>, and those of them
  that are not below the lower end \<open>q2min\<close> of the range.
\<close>

fun BackPoints :: "nat \<Rightarrow> real \<Rightarrow> real \<Rightarrow> real list" where
  "BackPoints 0 Q2 d = []"
| "BackPoints (Suc n) Q2 d = exp (ln Q2 - d) # BackPoints n (exp (ln Q2 - d)) d"

definition SampledBackPoints :: "real \<Rightarrow> nat \<Rightarrow> real \<Rightarrow> real \<Rightarrow> real list" where
  "SampledBackPoints q2min n Q2 d = filter (\<lambda>Q. \<not> Q < q2min) (BackPoints n Q2 d)"

section \<open>Example inputs\<close>

text \<open>
  A physical W range of \<open>[1, 2]\<close>; a physical Q2 range that depends on the running W of
  the interaction, empty while no W is set; a constant cross section.
\<close>

definition ext_demo :: Externals where
  "ext_demo =
     \<lparr>KineRange = (\<lambda>kv i. case kv of
                      kKVW \<Rightarrow> \<lparr>rmin = 1, rmax = 2\<rparr>
                    | _ \<Rightarrow> (case running i kKVW of
                             None \<Rightarrow> \<lparr>rmin = 0, rmax = 0\<rparr>
                           | Some w \<Rightarrow> \<lparr>rmin = 1 / 10, rmax = w\<rparr>)),
      XSec = (\<lambda>i. 1),
      Jacobian = (\<lambda>i. 1),
      PhaseSpaceVolume = (\<lambda>i. 2),
      Q2toQD2 = (\<lambda>q. 1 / (1 + q)),
      QD2toQ2 = (\<lambda>q. 1 / q - 1),
      WQ2toXY = (\<lambda>E M W Q2. (1 / 2, 1 / 4)),
      res_Mass = (\<lambda>r. 1232 / 1000),
      RndKine = (\<lambda>n. 1 / 2),
      EnvelopeEval = (\<lambda>f x y. par2 f),
      GetRandom2 = (\<lambda>f n. (1 / 2, 3 / 2)),
      CacheKey = (\<lambda>i. 0),
      kASmallNum = 1 / 1000000,
      kMinQ2Limit = 0,
      kRjMaxIterations = 2\<rparr>"

text \<open>The same with a cross section that drops from 1 to 0 above Q2 = 1.\<close>

definition ext_peak :: Externals where
  "ext_peak =
     ext_demo\<lparr>XSec := (\<lambda>i. case running i kKVQ2 of
                           None \<Rightarrow> 0
                         | Some q \<Rightarrow> if q \<le> 1 then 1 else 0)\<rparr>"

text \<open>The same with a constant cross section 3, above any ceiling of 1.\<close>

definition ext_high :: Externals where
  "ext_high = ext_demo\<lparr>XSec := (\<lambda>i. 3)\<rparr>"

definition cfg_demo :: Config where
  "cfg_demo =
     \<lparr>fWmin = - 999999, fWmax = 999999, fQ2min = - 999999, fQ2max = 999999,
      fSafetyFactor = 125 / 100, fEMin = 1, fWcut = 17 / 10,
      fMaxXSecDiffTolerance = 0, fGenerateUniformly = False\<rparr>"

definition int_demo :: Interaction where
  "int_demo =
     \<lparr>ProbeE = 1 / 2, StruckNucleonM = 938 / 1000, ExclusiveTag = None, bits = {},
      running = Map.empty, selected = Map.empty\<rparr>"

definition ev_demo :: GHepRecord where
  "ev_demo = \<lparr>interaction = int_demo, EventFlags = {}, DiffXSec = 0, XSec_tot = 4, Weight = 1\<rparr>"

definition gs_demo :: GenState where
  "gs_demo =
     \<lparr>fEnvelope = \<lparr>xmin = 1 / 10, ymin = 1 / 10, xmax = 1, ymax = 1,
                   par0 = 0, par1 = 0, par2 = 0, par3 = 0\<rparr>,
      cache = Map.empty, rnd_pos = 0, env_pos = 0\<rparr>"

definition scan_demo :: ScanState where
  "scan_demo =
     \<lparr>max_xsec = 0, xseclast = - 1, dlogQ2 = 1, scan_int = int_demo, scan_log = []\<rparr>"

section \<open>Auxiliary facts\<close>

subsection \<open>Setters\<close>

lemma KeepsKinematics_refl: "KeepsKinematics i i"
  by (simp add: KeepsKinematics_def)

lemma KeepsKinematics_trans:
  "KeepsKinematics a b \<Longrightarrow> KeepsKinematics b c \<Longrightarrow> KeepsKinematics a c"
  by (auto simp: KeepsKinematics_def)

lemma KeepsKinematics_SetKV: "KeepsKinematics i (SetKV kv v False i)"
  by (auto simp: KeepsKinematics_def SetKV_def)

lemma KeepsKinematics_SetKV2: "KeepsKinematics i (SetKV kv v False (SetKV kv' v' False i))"
  by (auto simp: KeepsKinematics_def SetKV_def)

lemma KeepsKinematics_SetBit: "KeepsKinematics i (SetBit b i)"
  by (simp add: KeepsKinematics_def SetBit_def)

lemma SetKV_override: "SetKV kv v False (SetKV kv u False i) = SetKV kv v False i"
  by (simp add: SetKV_def)

lemma SampleXSec_SetQ2: "SampleXSec ext (SetQ2 u False i) Q = SampleXSec ext i Q"
  by (simp add: SampleXSec_def SetQ2_def SetKV_override)

subsection \<open>What an iteration that does not end the call leaves untouched\<close>

lemma SameCommitted_refl: "SameCommitted ev ev"
  by (simp add: SameCommitted_def KeepsKinematics_refl)

lemma SameCommitted_trans: "SameCommitted a b \<Longrightarrow> SameCommitted b c \<Longrightarrow> SameCommitted a c"
  using KeepsKinematics_trans by (auto simp: SameCommitted_def)

lemma GenerateUniform_same:
  "GenerateUniform cfg ext Wmin dW gs ev = (c, gs1, ev1) \<Longrightarrow> SameCommitted ev ev1"
  by (auto simp: GenerateUniform_def Let_def SameCommitted_def KeepsKinematics_SetBit
                 KeepsKinematics_refl split: if_splits)

lemma GenerateImportance_same:
  "GenerateImportance cfg ext iter Wmin Wmax xm gs ev = (c, gs1, ev1) \<Longrightarrow> SameCommitted ev ev1"
  by (auto simp: GenerateImportance_def Let_def SameCommitted_def SetW_def KeepsKinematics_SetKV
                 KeepsKinematics_refl split: if_splits prod.splits option.splits)

lemma TryCandidate_Continue_same:
  "TryCandidate cfg ext gW gQ2 gQD2 gs1 ev1 = Continue gs2 ev2 \<Longrightarrow> SameCommitted ev1 ev2"
  by (auto simp: TryCandidate_def Let_def SameCommitted_def SetW_def SetQ2_def
                 KeepsKinematics_SetKV2 split: if_splits)

lemma Trial_cases:
  obtains (skip) gs1 ev1 where
      "SameCommitted ev ev1"
      "Trial cfg ext Wmin Wmax dW xm iter gs ev = Continue gs1 ev1"
  | (candidate) gW gQ2 gQD2 gs1 ev1 where
      "SameCommitted ev ev1"
      "Trial cfg ext Wmin Wmax dW xm iter gs ev = TryCandidate cfg ext gW gQ2 gQD2 gs1 ev1"
proof -
  let ?G = "if fGenerateUniformly cfg then GenerateUniform cfg ext Wmin dW gs ev
            else GenerateImportance cfg ext iter Wmin Wmax xm gs ev"
  obtain c g e where G: "?G = (c, g, e)" by (cases ?G) auto
  have S: "SameCommitted ev e"
    using G GenerateUniform_same GenerateImportance_same by (metis (full_types))
  show ?thesis
  proof (cases c)
    case None
    with G have "Trial cfg ext Wmin Wmax dW xm iter gs ev = Continue g e"
      by (simp add: Trial_def)
    with S show ?thesis by (rule skip)
  next
    case (Some t)
    obtain gW gQ2 gQD2 where t: "t = (gW, gQ2, gQD2)" by (cases t) auto
    from G Some t
    have "Trial cfg ext Wmin Wmax dW xm iter gs ev = TryCandidate cfg ext gW gQ2 gQD2 g e"
      by (simp add: Trial_def)
    with S show ?thesis by (rule candidate)
  qed
qed

lemma Trial_Continue_same:
  assumes "Trial cfg ext Wmin Wmax dW xm iter gs ev = Continue gs1 ev1"
  shows "SameCommitted ev ev1"
proof (cases rule: Trial_cases[of ev cfg ext Wmin Wmax dW xm iter gs])
  case (skip g e)
  with assms show ?thesis by simp
next
  case (candidate gW gQ2 gQD2 g e)
  with assms have "TryCandidate cfg ext gW gQ2 gQD2 g e = Continue gs1 ev1" by simp
  then have "SameCommitted e ev1" by (rule TryCandidate_Continue_same)
  with candidate(1) show ?thesis by (rule SameCommitted_trans)
qed

subsection \<open>Results of the loop\<close>

lemma LoopPost_step:
  "SameCommitted ev ev1 \<Longrightarrow> LoopPost cfg ext Wmin Wmax dW xm ev1 r
     \<Longrightarrow> LoopPost cfg ext Wmin Wmax dW xm ev r"
  unfolding LoopPost_def using SameCommitted_trans by blast

lemma RejectionLoop_result:
  assumes "RejectionLoop cfg ext Wmin Wmax dW xm iter gs ev = Some r"
  shows "LoopPost cfg ext Wmin Wmax dW xm ev r"
proof (rule RejectionLoop.raw_induct
         [where P = "\<lambda>cfg ext Wmin Wmax dW xm iter gs ev r. LoopPost cfg ext Wmin Wmax dW xm ev r",
          OF _ assms], goal_cases)
  case (1 loop cfg ext Wmin Wmax dW xm iter gs ev r)
  let ?it = "(iter + 1) mod 2 ^ 32"
  show ?case
  proof (cases "kRjMaxIterations ext < ?it")
    case True
    with 1(2) have "r = (Thrown KinematicSelectionExhausted, gs,
        ev\<lparr>EventFlags := insert kNoValidKinematics (EventFlags ev)\<rparr>)"
      by (simp add: Let_def)
    then show ?thesis unfolding LoopPost_def using SameCommitted_refl by blast
  next
    case False
    show ?thesis
    proof (cases "Trial cfg ext Wmin Wmax dW xm ?it gs ev")
      case (Continue gs1 ev1)
      with 1(2) False have L: "loop cfg ext Wmin Wmax dW xm ?it gs1 ev1 = Some r"
        by (simp add: Let_def)
      show ?thesis
        using Trial_Continue_same[OF Continue] 1(1)[OF L] by (rule LoopPost_step)
    next
      case (Done out gs' ev')
      with 1(2) False have "r = (out, gs', ev')" by (simp add: Let_def)
      then show ?thesis unfolding LoopPost_def using Done SameCommitted_refl by blast
    qed
  qed
qed

lemma RejectionLoop_exhausts_from:
  assumes "iter + n = kRjMaxIterations ext" and "kRjMaxIterations ext < 2 ^ 32 - 1"
    and "RejectedTrials cfg ext Wmin Wmax dW xm iter n gs ev = Some (gs', ev')"
  shows "RejectionLoop cfg ext Wmin Wmax dW xm iter gs ev =
           Some (Thrown KinematicSelectionExhausted, gs',
                 ev'\<lparr>EventFlags := insert kNoValidKinematics (EventFlags ev')\<rparr>)"
  using assms
proof (induction n arbitrary: iter gs ev)
  case 0
  then have "(iter + 1) mod 2 ^ 32 = iter + 1" by simp
  with 0 show ?case by (subst RejectionLoop.simps) (simp add: Let_def)
next
  case (Suc n)
  then have m: "(iter + 1) mod 2 ^ 32 = iter + 1" and le: "\<not> kRjMaxIterations ext < iter + 1"
    by simp_all
  show ?case
  proof (cases "Trial cfg ext Wmin Wmax dW xm (iter + 1) gs ev")
    case (Continue g e)
    with Suc.prems(3) have R: "RejectedTrials cfg ext Wmin Wmax dW xm (iter + 1) n g e = Some (gs', ev')"
      by simp
    have "iter + 1 + n = kRjMaxIterations ext" using Suc.prems(1) by simp
    from Suc.IH[OF this Suc.prems(2) R] Continue m le show ?thesis
      by (subst RejectionLoop.simps) (simp add: Let_def)
  next
    case (Done out g e)
    with Suc.prems(3) show ?thesis by simp
  qed
qed

lemma RejectionLoop_terminates_from:
  assumes "iter + n = kRjMaxIterations ext" and "kRjMaxIterations ext < 2 ^ 32 - 1"
  shows "\<exists>r. RejectionLoop cfg ext Wmin Wmax dW xm iter gs ev = Some r"
  using assms
proof (induction n arbitrary: iter gs ev)
  case 0
  then have "(iter + 1) mod 2 ^ 32 = iter + 1" by simp
  with 0 show ?case by (subst RejectionLoop.simps) (simp add: Let_def)
next
  case (Suc n)
  then have m: "(iter + 1) mod 2 ^ 32 = iter + 1" and le: "\<not> kRjMaxIterations ext < iter + 1"
    by simp_all
  show ?case
  proof (cases "Trial cfg ext Wmin Wmax dW xm (iter + 1) gs ev")
    case (Continue g e)
    have "iter + 1 + n = kRjMaxIterations ext" using Suc.prems(1) by simp
    from Suc.IH[OF this Suc.prems(2)] Continue m le show ?thesis
      by (subst RejectionLoop.simps) (simp add: Let_def)
  next
    case (Done out g e)
    with m le show ?thesis by (subst RejectionLoop.simps) (simp add: Let_def)
  qed
qed

subsection \<open>How a call can end\<close>

lemma AcceptedAt_step:
  "SameCommitted ev ev1 \<Longrightarrow> AcceptedAt cfg ext ev1 ev' \<Longrightarrow> AcceptedAt cfg ext ev ev'"
  unfolding AcceptedAt_def using SameCommitted_trans by blast

lemma TryCandidate_Done:
  assumes "TryCandidate cfg ext gW gQ2 gQD2 gs1 ev1 = Done out gs' ev'"
  shows "(out = CeilingViolation \<and> SameCommitted ev1 ev') \<or>
         (out = Returned \<and> AcceptedAt cfg ext ev1 ev')"
proof -
  let ?i2 = "SetQ2 gQ2 False (SetW gW False (interaction ev1))"
  let ?ev2 = "ev1\<lparr>interaction := ?i2\<rparr>"
  have S: "SameCommitted ev1 ?ev2"
    by (simp add: SameCommitted_def SetW_def SetQ2_def KeepsKinematics_SetKV2)
  have R: "running (interaction ?ev2) kKVW = Some gW" "running (interaction ?ev2) kKVQ2 = Some gQ2"
    by (simp_all add: SetW_def SetQ2_def SetKV_def)
  from assms consider
      (viol) "out = CeilingViolation" "ev' = ?ev2"
    | (acc) "out = Returned" "ev' = AcceptKinematics cfg ext gW gQ2 (XSec ext ?i2) ?ev2"
            "fGenerateUniformly cfg \<longrightarrow> 0 < XSec ext ?i2"
    by (auto simp: TryCandidate_def Let_def split: if_splits)
  then show ?thesis
  proof cases
    case viol
    with S show ?thesis by simp
  next
    case acc
    have "AcceptedAt cfg ext ev1 ev'"
      unfolding AcceptedAt_def using S R acc(2,3)
      by (intro exI[of _ gW] exI[of _ gQ2] exI[of _ ?ev2]) simp
    with acc(1) show ?thesis by simp
  qed
qed

lemma Trial_Done:
  assumes "Trial cfg ext Wmin Wmax dW xm iter gs ev = Done out gs' ev'"
  shows "(out = CeilingViolation \<and> SameCommitted ev ev') \<or>
         (out = Returned \<and> AcceptedAt cfg ext ev ev')"
proof (cases rule: Trial_cases[of ev cfg ext Wmin Wmax dW xm iter gs])
  case (skip g e)
  with assms show ?thesis by simp
next
  case (candidate gW gQ2 gQD2 g e)
  with assms have "TryCandidate cfg ext gW gQ2 gQD2 g e = Done out gs' ev'" by simp
  from TryCandidate_Done[OF this] candidate(1) show ?thesis
    using SameCommitted_trans AcceptedAt_step by blast
qed

lemma RejectionLoop_outcomes:
  assumes "RejectionLoop cfg ext Wmin Wmax dW xm iter gs ev = Some (out, gs', ev')"
  shows "(out = Thrown KinematicSelectionExhausted \<and>
            (\<exists>ev1. SameCommitted ev ev1 \<and>
               ev' = ev1\<lparr>EventFlags := insert kNoValidKinematics (EventFlags ev1)\<rparr>)) \<or>
         (out = CeilingViolation \<and> SameCommitted ev ev') \<or>
         (out = Returned \<and> AcceptedAt cfg ext ev ev')"
proof -
  from RejectionLoop_result[OF assms] obtain it gs1 ev1 where
    S: "SameCommitted ev ev1" and
    D: "(out, gs', ev') = (Thrown KinematicSelectionExhausted, gs1,
                 ev1\<lparr>EventFlags := insert kNoValidKinematics (EventFlags ev1)\<rparr>) \<or>
        Trial cfg ext Wmin Wmax dW xm it gs1 ev1 = Done out gs' ev'"
    unfolding LoopPost_def by auto
  from D show ?thesis
  proof
    assume "(out, gs', ev') = (Thrown KinematicSelectionExhausted, gs1,
                 ev1\<lparr>EventFlags := insert kNoValidKinematics (EventFlags ev1)\<rparr>)"
    with S show ?thesis by blast
  next
    assume "Trial cfg ext Wmin Wmax dW xm it gs1 ev1 = Done out gs' ev'"
    from Trial_Done[OF this] S show ?thesis
      using SameCommitted_trans AcceptedAt_step by blast
  qed
qed

subsection \<open>The search neither locks nor clears kinematics\<close>

lemma BackwardSteps_keeps:
  "KeepsKinematics (scan_int s) (scan_int (BackwardSteps ext W q n Q s))"
proof (induction n arbitrary: Q s)
  case 0
  show ?case by (simp add: KeepsKinematics_refl)
next
  case (Suc n)
  let ?Q' = "exp (ln Q - dlogQ2 s)"
  show ?case
  proof (cases "?Q' < q")
    case True
    then show ?thesis using Suc.IH[of s ?Q'] by (simp add: Let_def)
  next
    case False
    let ?s' = "s\<lparr>scan_int := SetQ2 ?Q' False (scan_int s),
                  scan_log := scan_log s @ [(W, ?Q', XSec ext (SetQ2 ?Q' False (scan_int s)))],
                  max_xsec := max (XSec ext (SetQ2 ?Q' False (scan_int s))) (max_xsec s)\<rparr>"
    have "KeepsKinematics (scan_int s) (scan_int ?s')"
      by (simp add: SetQ2_def KeepsKinematics_SetKV)
    from this Suc.IH[of ?s' ?Q'] have "KeepsKinematics (scan_int s)
        (scan_int (BackwardSteps ext W q n ?Q' ?s'))"
      by (rule KeepsKinematics_trans)
    with False show ?thesis by (simp add: Let_def)
  qed
qed

lemma GridScan_keeps:
  "KeepsKinematics (scan_int s) (scan_int (GridScan ext W q l iq2 s))"
proof (induction ext W q l iq2 s rule: GridScan.induct)
  case (1 ext W q l iq2 s)
  show ?case
  proof (cases "iq2 < NQ2")
    case False
    then show ?thesis by (subst GridScan.simps) (simp add: KeepsKinematics_refl)
  next
    case True
    let ?Q2 = "exp (l + real iq2 * dlogQ2 s)"
    let ?i = "SetQ2 ?Q2 False (scan_int s)"
    let ?x = "XSec ext ?i"
    let ?s1 = "s\<lparr>scan_int := ?i, scan_log := scan_log s @ [(W, ?Q2, ?x)],
                  max_xsec := max ?x (max_xsec s), xseclast := ?x\<rparr>"
    have K: "KeepsKinematics (scan_int s) (scan_int ?s1)"
      by (simp add: SetQ2_def KeepsKinematics_SetKV)
    show ?thesis
    proof (cases "0 \<le> ?x - xseclast s")
      case inc: True
      have "KeepsKinematics (scan_int ?s1) (scan_int (GridScan ext W q l (iq2 + 1) ?s1))"
        using "1.IH"[OF True refl refl refl refl refl] inc by simp
      with K have "KeepsKinematics (scan_int s) (scan_int (GridScan ext W q l (iq2 + 1) ?s1))"
        by (rule KeepsKinematics_trans)
      with True inc show ?thesis
        by (subst GridScan.simps) (simp add: Let_def)
    next
      case dec: False
      let ?s2 = "?s1\<lparr>dlogQ2 := dlogQ2 ?s1 / real kNQ2b\<rparr>"
      have "KeepsKinematics (scan_int ?s2) (scan_int (BackwardSteps ext W q kNQ2b ?Q2 ?s2))"
        by (rule BackwardSteps_keeps)
      then have "KeepsKinematics (scan_int ?s1) (scan_int (BackwardSteps ext W q kNQ2b ?Q2 ?s2))"
        by simp
      with K have "KeepsKinematics (scan_int s) (scan_int (BackwardSteps ext W q kNQ2b ?Q2 ?s2))"
        by (rule KeepsKinematics_trans)
      with True dec show ?thesis
        by (subst GridScan.simps) (simp add: Let_def)
    qed
  qed
qed

lemma ComputeMaxXSec_keeps: "KeepsKinematics i (snd (ComputeMaxXSec cfg ext i))"
proof -
  let ?md = "case ExclusiveTag i of None \<Rightarrow> 1.23 | Some res \<Rightarrow> res_Mass ext res"
  let ?rW = "WRange cfg ext i"
  let ?W = "if IsWithinLimits ?md ?rW then ?md
            else if ?md \<ge> rmax ?rW then rmax ?rW - kASmallNum ext
            else rmin ?rW + kASmallNum ext"
  let ?i1 = "SetW ?W False i"
  have K: "KeepsKinematics i ?i1" by (simp add: SetW_def KeepsKinematics_SetKV)
  have G: "KeepsKinematics i (scan_int (GridScan ext W' q l 0
             \<lparr>max_xsec = 0, xseclast = - 1, dlogQ2 = d, scan_int = ?i1, scan_log = []\<rparr>))"
    for W' q l d
  proof -
    let ?s0 = "\<lparr>max_xsec = 0, xseclast = - 1, dlogQ2 = d, scan_int = ?i1, scan_log = []\<rparr>"
    have "KeepsKinematics (scan_int ?s0) (scan_int (GridScan ext W' q l 0 ?s0))"
      by (rule GridScan_keeps)
    then have "KeepsKinematics ?i1 (scan_int (GridScan ext W' q l 0 ?s0))" by simp
    with K show ?thesis by (rule KeepsKinematics_trans)
  qed
  show ?thesis
    using K G by (simp add: ComputeMaxXSec_def ScanPhaseSpace_def Let_def)
qed

lemma MaxXSec_same:
  assumes "MaxXSec cfg ext gs ev = (m, gs2, ev2)"
  shows "SameCommitted ev ev2"
proof -
  obtain v i1 where C: "ComputeMaxXSec cfg ext (interaction ev) = (v, i1)"
    by (cases "ComputeMaxXSec cfg ext (interaction ev)") auto
  then have "KeepsKinematics (interaction ev) i1"
    using ComputeMaxXSec_keeps[of "interaction ev" cfg ext] by simp
  with assms C show ?thesis
    by (auto simp: MaxXSec_def Let_def SameCommitted_def KeepsKinematics_refl
             split: if_splits option.splits)
qed

lemma ProcessEventRecord_outcomes:
  assumes "ProcessEventRecord cfg ext gs ev = Some (out, gs', ev')"
  shows "(out = AssertFailed \<and> SameCommitted ev ev') \<or>
         (out = NonPositiveMaxXSec \<and> SameCommitted ev ev') \<or>
         (out = Thrown KinematicSelectionExhausted \<and>
            (\<exists>ev1. SameCommitted ev ev1 \<and>
               ev' = ev1\<lparr>EventFlags := insert kNoValidKinematics (EventFlags ev1)\<rparr>)) \<or>
         (out = CeilingViolation \<and> SameCommitted ev ev') \<or>
         (out = Returned \<and> AcceptedAt cfg ext ev ev')"
proof -
  let ?ev1 = "ev\<lparr>interaction := SetBit kISkipProcessChk (interaction ev)\<rparr>"
  let ?W = "WRange cfg ext (interaction ?ev1)"
  have S1: "SameCommitted ev ?ev1" by (simp add: SameCommitted_def KeepsKinematics_SetBit)
  show ?thesis
  proof (cases "0 \<le> rmin ?W \<and> rmin ?W < rmax ?W")
    case False
    with assms have "out = AssertFailed" "ev' = ?ev1"
      by (auto simp: ProcessEventRecord_def Let_def)
    with S1 show ?thesis by simp
  next
    case True
    let ?M = "if fGenerateUniformly cfg then (Some (- 1), gs, ?ev1) else MaxXSec cfg ext gs ?ev1"
    obtain m gs2 ev2 where M: "?M = (m, gs2, ev2)" by (cases ?M) auto
    have S2: "SameCommitted ev ev2"
    proof (cases "fGenerateUniformly cfg")
      case True
      with M S1 show ?thesis by simp
    next
      case False
      with M have "MaxXSec cfg ext gs ?ev1 = (m, gs2, ev2)" by simp
      from S1 MaxXSec_same[OF this] show ?thesis by (rule SameCommitted_trans)
    qed
    show ?thesis
    proof (cases m)
      case None
      with assms True M have "out = NonPositiveMaxXSec" "ev' = ev2"
        by (auto simp: ProcessEventRecord_def Let_def)
      with S2 show ?thesis by simp
    next
      case (Some xm)
      with assms True M have
        "RejectionLoop cfg ext (rmin ?W + kASmallNum ext) (rmax ?W - kASmallNum ext)
           (rmax ?W - kASmallNum ext - (rmin ?W + kASmallNum ext)) xm 0 gs2 ev2
         = Some (out, gs', ev')"
        by (auto simp: ProcessEventRecord_def Let_def)
      from RejectionLoop_outcomes[OF this] S2 show ?thesis
        using SameCommitted_trans AcceptedAt_step by blast
    qed
  qed
qed

subsection \<open>The acceptance block\<close>

lemma AcceptKinematics_selected:
  "selected (interaction (AcceptKinematics cfg ext gW gQ2 xsec ev)) =
     (selected (interaction ev))
       (kKVQ2 \<mapsto> gQ2, kKVW \<mapsto> gW,
        kKVx \<mapsto> fst (WQ2toXY ext (ProbeE (interaction ev)) (StruckNucleonM (interaction ev)) gW gQ2),
        kKVy \<mapsto> snd (WQ2toXY ext (ProbeE (interaction ev)) (StruckNucleonM (interaction ev)) gW gQ2))"
  by (simp add: AcceptKinematics_def Let_def ResetBit_def ClearRunningValues_def
                SetW_def SetQ2_def Setx_def Sety_def SetKV_def split: prod.splits)

lemma AcceptKinematics_running:
  "running (interaction (AcceptKinematics cfg ext gW gQ2 xsec ev)) = Map.empty"
  by (simp add: AcceptKinematics_def Let_def ClearRunningValues_def split: prod.splits)

lemma AcceptKinematics_DiffXSec:
  "DiffXSec (AcceptKinematics cfg ext gW gQ2 xsec ev) = xsec"
  by (simp add: AcceptKinematics_def Let_def split: prod.splits)

lemma AcceptKinematics_Weight:
  "Weight (AcceptKinematics cfg ext gW gQ2 xsec ev) =
     (if fGenerateUniformly cfg
      then (PhaseSpaceVolume ext
              (ResetBit kISkipKinematicChk (ResetBit kISkipProcessChk (interaction ev)))
            / XSec_tot ev) * xsec * Weight ev
      else Weight ev)"
  by (simp add: AcceptKinematics_def Let_def split: prod.splits)

lemma AcceptKinematics_EventFlags:
  "EventFlags (AcceptKinematics cfg ext gW gQ2 xsec ev) = EventFlags ev"
  by (simp add: AcceptKinematics_def Let_def split: prod.splits)

lemma ProcessEventRecord_EventFlags:
  assumes "ProcessEventRecord cfg ext gs ev = Some (out, gs', ev')"
  shows "EventFlags ev' = EventFlags ev \<or>
         EventFlags ev' = insert kNoValidKinematics (EventFlags ev)"
proof -
  from ProcessEventRecord_outcomes[OF assms] consider
      (same) "SameCommitted ev ev'"
    | (exh) ev1 where "SameCommitted ev ev1"
        "ev' = ev1\<lparr>EventFlags := insert kNoValidKinematics (EventFlags ev1)\<rparr>"
    | (acc) "AcceptedAt cfg ext ev ev'"
    by auto
  then show ?thesis
  proof cases
    case same
    then show ?thesis by (simp add: SameCommitted_def)
  next
    case exh
    then show ?thesis by (simp add: SameCommitted_def)
  next
    case acc
    then obtain gW gQ2 ev2 where "SameCommitted ev ev2"
      "ev' = AcceptKinematics cfg ext gW gQ2 (XSec ext (interaction ev2)) ev2"
      unfolding AcceptedAt_def by blast
    then show ?thesis by (simp add: SameCommitted_def AcceptKinematics_EventFlags)
  qed
qed

subsection \<open>Example runs\<close>

text \<open>Uniform mode with a constant positive cross section: the first candidate is accepted.\<close>

lemma demo_uniform_accepted:
  "ProcessEventRecord (cfg_demo\<lparr>fGenerateUniformly := True\<rparr>) ext_demo gs_demo
      (ev_demo\<lparr>interaction := SetW (3 / 2) False int_demo\<rparr>)
   = Some (Returned, gs_demo\<lparr>rnd_pos := 2\<rparr>,
           ev_demo\<lparr>interaction :=
                     int_demo\<lparr>selected := [kKVQ2 \<mapsto> 8 / 10, kKVW \<mapsto> 135 / 100,
                                            kKVx \<mapsto> 1 / 2, kKVy \<mapsto> 1 / 4]\<rparr>,
                   DiffXSec := 1, Weight := 1 / 2\<rparr>)"
  apply (simp add: ProcessEventRecord_def WRange_def ApplyCutsToKineLimits_def clamp_def
      cfg_demo_def ext_demo_def Let_def)
  apply (subst RejectionLoop.simps)
  apply (simp add: Trial_def GenerateUniform_def TryCandidate_def AcceptKinematics_def Q2Range_def
      ApplyCutsToKineLimits_def clamp_def ev_demo_def gs_demo_def int_demo_def
      SetW_def SetQ2_def Setx_def Sety_def SetKV_def SetBit_def ResetBit_def
      ClearRunningValues_def Let_def)
  apply auto
  done

subsection \<open>The scan of the grid\<close>

lemma SampleXSec_SetQ2_fun: "SampleXSec ext (SetQ2 u False i) = SampleXSec ext i"
  by (rule ext) (rule SampleXSec_SetQ2)

lemma BackwardSteps_observed:
  "scan_log (BackwardSteps ext W q n Q s) =
     scan_log s @ map (\<lambda>Q'. (W, Q', SampleXSec ext (scan_int s) Q'))
                      (SampledBackPoints q n Q (dlogQ2 s)) \<and>
   dlogQ2 (BackwardSteps ext W q n Q s) = dlogQ2 s \<and>
   max_xsec (BackwardSteps ext W q n Q s) =
     fold max (map (SampleXSec ext (scan_int s)) (SampledBackPoints q n Q (dlogQ2 s))) (max_xsec s)"
proof (induction n arbitrary: Q s)
  case 0
  show ?case by (simp add: SampledBackPoints_def)
next
  case (Suc n)
  let ?Q' = "exp (ln Q - dlogQ2 s)"
  show ?case
  proof (cases "?Q' < q")
    case True
    then show ?thesis using Suc.IH[of ?Q' s] by (simp add: SampledBackPoints_def Let_def)
  next
    case False
    let ?s' = "s\<lparr>scan_int := SetQ2 ?Q' False (scan_int s),
                  scan_log := scan_log s @ [(W, ?Q', XSec ext (SetQ2 ?Q' False (scan_int s)))],
                  max_xsec := max (XSec ext (SetQ2 ?Q' False (scan_int s))) (max_xsec s)\<rparr>"
    have B: "BackwardSteps ext W q (Suc n) Q s = BackwardSteps ext W q n ?Q' ?s'"
      using False by (simp add: Let_def)
    have P: "SampledBackPoints q (Suc n) Q (dlogQ2 s) = ?Q' # SampledBackPoints q n ?Q' (dlogQ2 s)"
      using False by (simp add: SampledBackPoints_def)
    have X: "XSec ext (SetQ2 ?Q' False (scan_int s)) = SampleXSec ext (scan_int s) ?Q'"
      by (simp add: SampleXSec_def)
    show ?thesis
      unfolding B P using Suc.IH[of ?Q' ?s'] by (simp add: SampleXSec_SetQ2_fun X)
  qed
qed

lemma GridSample_GridStep: "GridSample ext (GridStep ext W l k s) l j = GridSample ext s l j"
  by (simp add: GridSample_def GridStep_def SampleXSec_SetQ2)

lemma GridScan_continue:
  assumes "iq2 < NQ2" and "xseclast s \<le> GridSample ext s l iq2"
  shows "GridScan ext W q l iq2 s = GridScan ext W q l (Suc iq2) (GridStep ext W l iq2 s)"
  using assms
  by (subst GridScan.simps)
     (simp add: Let_def GridStep_def GridSample_def SampleXSec_def GridPoint_def)

lemma GridScan_refine:
  assumes "iq2 < NQ2" and "GridSample ext s l iq2 < xseclast s"
  shows "GridScan ext W q l iq2 s =
           BackwardSteps ext W q kNQ2b (GridPoint l (dlogQ2 s) iq2)
             ((GridStep ext W l iq2 s)\<lparr>dlogQ2 := dlogQ2 s / real kNQ2b\<rparr>)"
  using assms
  by (subst GridScan.simps)
     (simp add: Let_def GridStep_def GridSample_def SampleXSec_def GridPoint_def)

lemma GridScan_refines_at:
  assumes "k < NQ2" and "iq2 + d = k"
    and "\<forall>j. iq2 \<le> j \<and> j < k \<longrightarrow>
           (if j = iq2 then xseclast s else GridSample ext s l (j - 1)) \<le> GridSample ext s l j"
    and "GridSample ext s l k < (if k = iq2 then xseclast s else GridSample ext s l (k - 1))"
  shows "scan_log (GridScan ext W q l iq2 s) =
           scan_log s @
           map (\<lambda>j. (W, GridPoint l (dlogQ2 s) j, GridSample ext s l j)) [iq2..<Suc k] @
           map (\<lambda>Q. (W, Q, SampleXSec ext (scan_int s) Q))
               (SampledBackPoints q kNQ2b (GridPoint l (dlogQ2 s) k) (dlogQ2 s / real kNQ2b)) \<and>
         dlogQ2 (GridScan ext W q l iq2 s) = dlogQ2 s / real kNQ2b \<and>
         max_xsec (GridScan ext W q l iq2 s) =
           fold max (map (GridSample ext s l) [iq2..<Suc k] @
                     map (SampleXSec ext (scan_int s))
                       (SampledBackPoints q kNQ2b (GridPoint l (dlogQ2 s) k)
                          (dlogQ2 s / real kNQ2b)))
                (max_xsec s)"
  using assms
proof (induction d arbitrary: iq2 s)
  case 0
  then have k: "iq2 = k" and lt: "GridSample ext s l k < xseclast s" by simp_all
  have R: "GridScan ext W q l k s =
           BackwardSteps ext W q kNQ2b (GridPoint l (dlogQ2 s) k)
             ((GridStep ext W l k s)\<lparr>dlogQ2 := dlogQ2 s / real kNQ2b\<rparr>)"
    using "0.prems"(1) lt by (rule GridScan_refine)
  show ?case
    unfolding k R
    using BackwardSteps_observed[of ext W q kNQ2b "GridPoint l (dlogQ2 s) k"
            "(GridStep ext W l k s)\<lparr>dlogQ2 := dlogQ2 s / real kNQ2b\<rparr>"]
    by (simp add: GridStep_def SampleXSec_SetQ2_fun)
next
  case (Suc d)
  then have lt: "iq2 < k" and n: "iq2 < NQ2" by simp_all
  have le: "xseclast s \<le> GridSample ext s l iq2"
    using Suc.prems(3) lt by (auto dest: spec[of _ iq2])
  let ?s1 = "GridStep ext W l iq2 s"
  have C: "GridScan ext W q l iq2 s = GridScan ext W q l (Suc iq2) ?s1"
    using n le by (rule GridScan_continue)
  have d1: "dlogQ2 ?s1 = dlogQ2 s" and x1: "xseclast ?s1 = GridSample ext s l iq2"
    and i1: "SampleXSec ext (scan_int ?s1) = SampleXSec ext (scan_int s)"
    and l1: "scan_log ?s1 = scan_log s @ [(W, GridPoint l (dlogQ2 s) iq2, GridSample ext s l iq2)]"
    and m1: "max_xsec ?s1 = max (GridSample ext s l iq2) (max_xsec s)"
    by (simp_all add: GridStep_def SampleXSec_SetQ2_fun)
  have g1: "GridSample ext ?s1 l = GridSample ext s l"
    by (rule ext) (rule GridSample_GridStep)
  have A3: "\<forall>j. Suc iq2 \<le> j \<and> j < k \<longrightarrow>
           (if j = Suc iq2 then xseclast ?s1 else GridSample ext ?s1 l (j - 1)) \<le> GridSample ext ?s1 l j"
    unfolding g1 x1
  proof (intro allI impI)
    fix j assume J: "Suc iq2 \<le> j \<and> j < k"
    then have "iq2 \<le> j \<and> j < k" and ne: "j \<noteq> iq2" by auto
    with Suc.prems(3) have "GridSample ext s l (j - 1) \<le> GridSample ext s l j" by fastforce
    then show "(if j = Suc iq2 then GridSample ext s l iq2 else GridSample ext s l (j - 1))
                 \<le> GridSample ext s l j" by (cases "j = Suc iq2") simp_all
  qed
  have A4: "GridSample ext ?s1 l k < (if k = Suc iq2 then xseclast ?s1 else GridSample ext ?s1 l (k - 1))"
    unfolding g1 x1 using Suc.prems(4) lt by (cases "k = Suc iq2") auto
  have A2: "Suc iq2 + d = k" using Suc.prems(2) by simp
  have U: "[iq2..<Suc k] = iq2 # [Suc iq2..<Suc k]"
    using lt by (simp add: upt_conv_Cons)
  show ?case
    unfolding C U using Suc.IH[OF Suc.prems(1) A2 A3 A4]
    by (simp add: d1 i1 l1 m1 g1)
qed

lemma GridScan_runs_through:
  assumes "iq2 + d = NQ2"
    and "\<forall>j. iq2 \<le> j \<and> j < NQ2 \<longrightarrow>
           (if j = iq2 then xseclast s else GridSample ext s l (j - 1)) \<le> GridSample ext s l j"
  shows "scan_log (GridScan ext W q l iq2 s) =
           scan_log s @ map (\<lambda>j. (W, GridPoint l (dlogQ2 s) j, GridSample ext s l j)) [iq2..<NQ2] \<and>
         dlogQ2 (GridScan ext W q l iq2 s) = dlogQ2 s \<and>
         max_xsec (GridScan ext W q l iq2 s) =
           fold max (map (GridSample ext s l) [iq2..<NQ2]) (max_xsec s)"
  using assms
proof (induction d arbitrary: iq2 s)
  case 0
  then have "\<not> iq2 < NQ2" by simp
  then have "GridScan ext W q l iq2 s = s" by (subst GridScan.simps) simp
  with 0 show ?case by simp
next
  case (Suc d)
  then have n: "iq2 < NQ2" by simp
  have le: "xseclast s \<le> GridSample ext s l iq2"
    using Suc.prems(2) n by (auto dest: spec[of _ iq2])
  let ?s1 = "GridStep ext W l iq2 s"
  have C: "GridScan ext W q l iq2 s = GridScan ext W q l (Suc iq2) ?s1"
    using n le by (rule GridScan_continue)
  have d1: "dlogQ2 ?s1 = dlogQ2 s" and x1: "xseclast ?s1 = GridSample ext s l iq2"
    and l1: "scan_log ?s1 = scan_log s @ [(W, GridPoint l (dlogQ2 s) iq2, GridSample ext s l iq2)]"
    and m1: "max_xsec ?s1 = max (GridSample ext s l iq2) (max_xsec s)"
    by (simp_all add: GridStep_def)
  have g1: "GridSample ext ?s1 l = GridSample ext s l"
    by (rule ext) (rule GridSample_GridStep)
  have A2: "\<forall>j. Suc iq2 \<le> j \<and> j < NQ2 \<longrightarrow>
           (if j = Suc iq2 then xseclast ?s1 else GridSample ext ?s1 l (j - 1)) \<le> GridSample ext ?s1 l j"
    unfolding g1 x1
  proof (intro allI impI)
    fix j assume J: "Suc iq2 \<le> j \<and> j < NQ2"
    then have "iq2 \<le> j \<and> j < NQ2" and ne: "j \<noteq> iq2" by auto
    with Suc.prems(2) have "GridSample ext s l (j - 1) \<le> GridSample ext s l j" by fastforce
    then show "(if j = Suc iq2 then GridSample ext s l iq2 else GridSample ext s l (j - 1))
                 \<le> GridSample ext s l j" by (cases "j = Suc iq2") simp_all
  qed
  have A1: "Suc iq2 + d = NQ2" using Suc.prems(1) by simp
  have U: "[iq2..<NQ2] = iq2 # [Suc iq2..<NQ2]"
    using n by (simp add: upt_conv_Cons)
  show ?case
    unfolding C U using Suc.IH[OF A1 A2]
    by (simp add: d1 l1 m1 g1)
qed

lemma fold_max_const:
  "fold max (map (\<lambda>j. c) xs) (m::real) = (if xs = [] then m else max c m)"
  by (induction xs arbitrary: m) simp_all

lemma GridScan_constant:
  assumes "XSec ext = (\<lambda>i. c)" and "xseclast s \<le> c"
  shows "scan_log (GridScan ext W q l 0 s) =
           scan_log s @ map (\<lambda>j. (W, GridPoint l (dlogQ2 s) j, c)) [0..<NQ2] \<and>
         dlogQ2 (GridScan ext W q l 0 s) = dlogQ2 s \<and>
         max_xsec (GridScan ext W q l 0 s) = max c (max_xsec s)"
proof -
  have G: "GridSample ext s l = (\<lambda>j. c)"
    by (rule ext) (simp add: GridSample_def SampleXSec_def assms(1))
  have "\<forall>j. 0 \<le> j \<and> j < NQ2 \<longrightarrow>
           (if j = 0 then xseclast s else GridSample ext s l (j - 1)) \<le> GridSample ext s l j"
    unfolding G using assms(2) by simp
  from GridScan_runs_through[OF _ this, of NQ2 W q] show ?thesis
    by (simp add: G fold_max_const NQ2_def)
qed

section \<open>Properties\<close>

text \<open>
  Claim C1. In importance sampled mode every iteration samples a candidate from the
  envelope, draws the control variable as the next value of the random stream scaled by the
  envelope density at the candidate, and first checks that the cross section does not exceed
  that density by more than the configured fraction of it: when the check fails the process
  stops, whatever the comparison would give; when it passes the candidate is accepted if and
  only if the control variable is below Jacobian times cross section.
\<close>

theorem importance_sampled_acceptance:
  assumes "\<not> fGenerateUniformly cfg"
  shows "\<exists>gW gQ2 gQD2 gs1 ev1.
           GenerateImportance cfg ext iter Wmin Wmax xm gs ev = (Some (gW, gQ2, gQD2), gs1, ev1) \<and>
           (let i2 = SetQ2 gQ2 False (SetW gW False (interaction ev1));
                ev2 = ev1\<lparr>interaction := i2\<rparr>;
                xsec = XSec ext i2;
                mx = EnvelopeEval ext (fEnvelope gs1) gQD2 gW;
                control = mx * RndKine ext (rnd_pos gs1);
                gs2 = gs1\<lparr>rnd_pos := rnd_pos gs1 + 1\<rparr>
            in Trial cfg ext Wmin Wmax dW xm iter gs ev =
                 (if \<not> (xsec \<le> mx \<or> xsec - mx \<le> fMaxXSecDiffTolerance cfg * mx)
                  then Done CeilingViolation gs2 ev2
                  else if control < Jacobian ext i2 * xsec
                       then Done Returned gs2 (AcceptKinematics cfg ext gW gQ2 xsec ev2)
                       else Continue gs2 ev2))"
proof -
  obtain c gs1 ev1 where G: "GenerateImportance cfg ext iter Wmin Wmax xm gs ev = (c, gs1, ev1)"
    by (cases "GenerateImportance cfg ext iter Wmin Wmax xm gs ev") auto
  then have "c \<noteq> None"
    by (auto simp: GenerateImportance_def Let_def split: prod.splits)
  then obtain gW gQ2 gQD2 where c: "c = Some (gW, gQ2, gQD2)" by (cases c) auto
  have T: "Trial cfg ext Wmin Wmax dW xm iter gs ev = TryCandidate cfg ext gW gQ2 gQD2 gs1 ev1"
    using assms G c by (simp add: Trial_def)
  show ?thesis
    apply (rule exI[of _ gW], rule exI[of _ gQ2], rule exI[of _ gQD2])
    apply (rule exI[of _ gs1], rule exI[of _ ev1])
    using assms G c T
    apply (simp add: TryCandidate_def AssertXSecLimits_def Let_def)
    done
qed

theorem importance_sampled_acceptance_witness:
  "\<not> fGenerateUniformly cfg_demo \<and>
   Trial cfg_demo ext_demo 1 2 1 1 1 gs_demo ev_demo =
     Done Returned
       (gs_demo\<lparr>fEnvelope := \<lparr>xmin = 1000000 / 1999999, ymin = 1, xmax = 1000000 / 1000001, ymax = 2,
                               par0 = 12 / 10, par1 = 6 / 10, par2 = 1, par3 = 2\<rparr>,
                 rnd_pos := 1, env_pos := 1\<rparr>)
       (ev_demo\<lparr>interaction :=
                  int_demo\<lparr>selected := [kKVQ2 \<mapsto> 1, kKVW \<mapsto> 3 / 2, kKVx \<mapsto> 1 / 2, kKVy \<mapsto> 1 / 4]\<rparr>,
                DiffXSec := 1\<rparr>)"
proof -
  have h: "\<not> fGenerateUniformly cfg_demo" by (simp add: cfg_demo_def)
  have G: "GenerateImportance cfg_demo ext_demo 1 1 2 1 gs_demo ev_demo =
    (Some (3 / 2, 1, 1 / 2),
     gs_demo\<lparr>fEnvelope := \<lparr>xmin = 1000000 / 1999999, ymin = 1, xmax = 1000000 / 1000001, ymax = 2,
                               par0 = 12 / 10, par1 = 6 / 10, par2 = 1, par3 = 2\<rparr>,
              env_pos := 1\<rparr>,
     ev_demo\<lparr>interaction := SetW 1 False int_demo\<rparr>)"
    by (simp add: GenerateImportance_def Q2Range_def ApplyCutsToKineLimits_def clamp_def
        cfg_demo_def ext_demo_def ev_demo_def gs_demo_def int_demo_def SetW_def SetKV_def Let_def)
  from importance_sampled_acceptance[OF h, of ext_demo 1 1 2 1 gs_demo ev_demo 1]
  obtain gW gQ2 gQD2 gs1 ev1 where
    A: "GenerateImportance cfg_demo ext_demo 1 1 2 1 gs_demo ev_demo = (Some (gW, gQ2, gQD2), gs1, ev1)"
    and B: "let i2 = SetQ2 gQ2 False (SetW gW False (interaction ev1));
                ev2 = ev1\<lparr>interaction := i2\<rparr>;
                xsec = XSec ext_demo i2;
                mx = EnvelopeEval ext_demo (fEnvelope gs1) gQD2 gW;
                control = mx * RndKine ext_demo (rnd_pos gs1);
                gs2 = gs1\<lparr>rnd_pos := rnd_pos gs1 + 1\<rparr>
            in Trial cfg_demo ext_demo 1 2 1 1 1 gs_demo ev_demo =
                 (if \<not> (xsec \<le> mx \<or> xsec - mx \<le> fMaxXSecDiffTolerance cfg_demo * mx)
                  then Done CeilingViolation gs2 ev2
                  else if control < Jacobian ext_demo i2 * xsec
                       then Done Returned gs2 (AcceptKinematics cfg_demo ext_demo gW gQ2 xsec ev2)
                       else Continue gs2 ev2)"
    by blast
  from A G have E: "gW = 3 / 2" "gQ2 = 1" "gQD2 = 1 / 2"
    "gs1 = gs_demo\<lparr>fEnvelope := \<lparr>xmin = 1000000 / 1999999, ymin = 1, xmax = 1000000 / 1000001,
                               ymax = 2, par0 = 12 / 10, par1 = 6 / 10, par2 = 1, par3 = 2\<rparr>,
              env_pos := 1\<rparr>"
    "ev1 = ev_demo\<lparr>interaction := SetW 1 False int_demo\<rparr>"
    by simp_all
  have X: "XSec ext_demo = (\<lambda>i. 1)" "Jacobian ext_demo = (\<lambda>i. 1)" "RndKine ext_demo = (\<lambda>n. 1 / 2)"
    "EnvelopeEval ext_demo = (\<lambda>f x y. par2 f)"
    by (simp_all add: ext_demo_def)
  from B have "Trial cfg_demo ext_demo 1 2 1 1 1 gs_demo ev_demo =
          Done Returned
            (gs_demo\<lparr>fEnvelope := \<lparr>xmin = 1000000 / 1999999, ymin = 1, xmax = 1000000 / 1000001,
                                    ymax = 2, par0 = 12 / 10, par1 = 6 / 10, par2 = 1, par3 = 2\<rparr>,
                      env_pos := 1, rnd_pos := 1\<rparr>)
            (AcceptKinematics cfg_demo ext_demo (3 / 2) 1 1
               (ev_demo\<lparr>interaction := SetQ2 1 False (SetW (3 / 2) False (SetW 1 False int_demo))\<rparr>))"
    unfolding E X by (simp add: Let_def gs_demo_def)
  then show ?thesis using h
    by (simp add: AcceptKinematics_def cfg_demo_def ext_demo_def gs_demo_def ev_demo_def
        int_demo_def SetW_def SetQ2_def Setx_def Sety_def SetKV_def ResetBit_def
        ClearRunningValues_def Let_def)
qed

text \<open>
  Claim C2, as amended. When none of the first \<open>kRjMaxIterations\<close> iterations ends the call
  (no candidate is accepted and no check of the cross section stops the process), the loop
  runs exactly these iterations and then throws the exception of an exhausted selection:
  the result holds the state left by the last of them, with the flag
  \<open>kNoValidKinematics\<close> set on the event record, and the exception carries a reason and the
  fast forward directive. The loop returns a result whatever the iterations do. The constant
  \<open>kRjMaxIterations\<close> is below the largest value of the 32 bit counter.
\<close>

theorem RejectionLoop_exhausted_after_max_iterations:
  assumes "kRjMaxIterations ext < 2 ^ 32 - 1"
  shows "(\<exists>r. RejectionLoop cfg ext Wmin Wmax dW xm 0 gs ev = Some r) \<and>
         (\<forall>gs' ev'. RejectedTrials cfg ext Wmin Wmax dW xm 0 (kRjMaxIterations ext) gs ev
                        = Some (gs', ev') \<longrightarrow>
            RejectionLoop cfg ext Wmin Wmax dW xm 0 gs ev =
              Some (Thrown KinematicSelectionExhausted, gs',
                    ev'\<lparr>EventFlags := insert kNoValidKinematics (EventFlags ev')\<rparr>)) \<and>
         fast_forward KinematicSelectionExhausted \<and> reason KinematicSelectionExhausted \<noteq> []"
proof (intro conjI allI impI)
  show "\<exists>r. RejectionLoop cfg ext Wmin Wmax dW xm 0 gs ev = Some r"
    using RejectionLoop_terminates_from[of 0 "kRjMaxIterations ext" ext] assms by simp
next
  fix gs' ev'
  assume "RejectedTrials cfg ext Wmin Wmax dW xm 0 (kRjMaxIterations ext) gs ev = Some (gs', ev')"
  then show "RejectionLoop cfg ext Wmin Wmax dW xm 0 gs ev =
              Some (Thrown KinematicSelectionExhausted, gs',
                    ev'\<lparr>EventFlags := insert kNoValidKinematics (EventFlags ev')\<rparr>)"
    using RejectionLoop_exhausts_from[of 0 "kRjMaxIterations ext" ext] assms by simp
qed (simp_all add: KinematicSelectionExhausted_def)

text \<open>
  An example: uniform mode, a cross section that is zero everywhere, and two iterations
  allowed.
\<close>

lemma demo_uniform_rejected:
  "RejectedTrials (cfg_demo\<lparr>fGenerateUniformly := True\<rparr>) (ext_demo\<lparr>XSec := \<lambda>i. 0\<rparr>)
      1 2 1 (- 1) 0 2 gs_demo (ev_demo\<lparr>interaction := SetW (3 / 2) False int_demo\<rparr>)
   = Some (gs_demo\<lparr>rnd_pos := 4\<rparr>,
           ev_demo\<lparr>interaction :=
              SetQ2 (8 / 10) False (SetW (3 / 2) False (SetBit kISkipKinematicChk int_demo))\<rparr>)"
  apply (simp add: numeral_2_eq_2 Trial_def GenerateUniform_def TryCandidate_def Q2Range_def
      ApplyCutsToKineLimits_def clamp_def cfg_demo_def ext_demo_def ev_demo_def gs_demo_def
      int_demo_def SetW_def SetQ2_def SetKV_def SetBit_def Let_def)
  done

theorem RejectionLoop_exhausted_witness:
  "kRjMaxIterations (ext_demo\<lparr>XSec := \<lambda>i. 0\<rparr>) < 2 ^ 32 - 1 \<and>
   RejectionLoop (cfg_demo\<lparr>fGenerateUniformly := True\<rparr>) (ext_demo\<lparr>XSec := \<lambda>i. 0\<rparr>)
      1 2 1 (- 1) 0 gs_demo (ev_demo\<lparr>interaction := SetW (3 / 2) False int_demo\<rparr>)
   = Some (Thrown KinematicSelectionExhausted, gs_demo\<lparr>rnd_pos := 4\<rparr>,
           ev_demo\<lparr>interaction :=
              SetQ2 (8 / 10) False (SetW (3 / 2) False (SetBit kISkipKinematicChk int_demo)),
              EventFlags := {kNoValidKinematics}\<rparr>)"
proof -
  have k: "kRjMaxIterations (ext_demo\<lparr>XSec := \<lambda>i. 0\<rparr>) = 2" by (simp add: ext_demo_def)
  have b: "kRjMaxIterations (ext_demo\<lparr>XSec := \<lambda>i. 0\<rparr>) < 2 ^ 32 - 1" by (simp add: k)
  show ?thesis
    using RejectionLoop_exhausted_after_max_iterations[OF b,
        of "cfg_demo\<lparr>fGenerateUniformly := True\<rparr>" 1 2 1 "- 1" gs_demo
           "ev_demo\<lparr>interaction := SetW (3 / 2) False int_demo\<rparr>"]
      demo_uniform_rejected b
    by (simp add: k ev_demo_def)
qed

text \<open>
  The claim as stated fails on a run that accepts nothing and is stopped by the check of the
  cross section against the envelope. In importance sampled mode with two iterations
  allowed, a ceiling of 1 and a cross section of 3, the first iteration ends the call with
  the ceiling violation: no candidate is accepted, one iteration is run, and no exception of
  an exhausted selection is thrown.
\<close>

theorem RejectionLoop_ceiling_violation_counterexample:
  "kRjMaxIterations ext_high = 2 \<and>
   Trial cfg_demo ext_high 1 2 1 1 1 gs_demo ev_demo =
     Done CeilingViolation
       (gs_demo\<lparr>fEnvelope := \<lparr>xmin = 1000000 / 1999999, ymin = 1, xmax = 1000000 / 1000001, ymax = 2,
                               par0 = 12 / 10, par1 = 6 / 10, par2 = 1, par3 = 2\<rparr>,
                 rnd_pos := 1, env_pos := 1\<rparr>)
       (ev_demo\<lparr>interaction := SetQ2 1 False (SetW (3 / 2) False int_demo)\<rparr>) \<and>
   RejectedTrials cfg_demo ext_high 1 2 1 1 0 2 gs_demo ev_demo = None \<and>
   RejectionLoop cfg_demo ext_high 1 2 1 1 0 gs_demo ev_demo =
     Some (CeilingViolation,
       gs_demo\<lparr>fEnvelope := \<lparr>xmin = 1000000 / 1999999, ymin = 1, xmax = 1000000 / 1000001, ymax = 2,
                               par0 = 12 / 10, par1 = 6 / 10, par2 = 1, par3 = 2\<rparr>,
                 rnd_pos := 1, env_pos := 1\<rparr>,
       ev_demo\<lparr>interaction := SetQ2 1 False (SetW (3 / 2) False int_demo)\<rparr>)"
proof -
  have k: "kRjMaxIterations ext_high = 2" by (simp add: ext_high_def ext_demo_def)
  have T: "Trial cfg_demo ext_high 1 2 1 1 (Suc 0) gs_demo ev_demo =
     Done CeilingViolation
       (gs_demo\<lparr>fEnvelope := \<lparr>xmin = 1000000 / 1999999, ymin = 1, xmax = 1000000 / 1000001, ymax = 2,
                               par0 = 12 / 10, par1 = 6 / 10, par2 = 1, par3 = 2\<rparr>,
                 rnd_pos := 1, env_pos := 1\<rparr>)
       (ev_demo\<lparr>interaction := SetQ2 1 False (SetW (3 / 2) False int_demo)\<rparr>)"
    by (simp add: Trial_def GenerateImportance_def TryCandidate_def AssertXSecLimits_def
        Q2Range_def ApplyCutsToKineLimits_def clamp_def cfg_demo_def ext_high_def ext_demo_def
        ev_demo_def
        gs_demo_def int_demo_def SetW_def SetQ2_def SetKV_def Let_def)
  have R: "RejectedTrials cfg_demo ext_high 1 2 1 1 0 2 gs_demo ev_demo = None"
    using T by (simp add: numeral_2_eq_2)
  have L: "RejectionLoop cfg_demo ext_high 1 2 1 1 0 gs_demo ev_demo =
     Some (CeilingViolation,
       gs_demo\<lparr>fEnvelope := \<lparr>xmin = 1000000 / 1999999, ymin = 1, xmax = 1000000 / 1000001, ymax = 2,
                               par0 = 12 / 10, par1 = 6 / 10, par2 = 1, par3 = 2\<rparr>,
                 rnd_pos := 1, env_pos := 1\<rparr>,
       ev_demo\<lparr>interaction := SetQ2 1 False (SetW (3 / 2) False int_demo)\<rparr>)"
    by (subst RejectionLoop.simps) (simp add: Let_def k T)
  show ?thesis using k T R L by simp
qed

text \<open>
  Claim C3 does not hold of the uniform branch: the Q2 range is computed on the interaction
  as the iteration finds it, before the W just drawn is written to it. Here W is drawn as
  1.5, for which the Q2 range is \<open>[0.1, 1.5]\<close>. On an interaction with no running W the
  range the code computes is empty and the iteration is passed over; on an interaction
  still holding the running W 1.1 the code draws Q2 from \<open>[0.1, 1.1]\<close>.
\<close>

theorem uniform_Q2_range_ignores_drawn_W:
  "Q2Range (cfg_demo\<lparr>fGenerateUniformly := True\<rparr>) ext_demo (SetW (3 / 2) False int_demo)
     = \<lparr>rmin = 1 / 10, rmax = 3 / 2\<rparr> \<and>
   GenerateUniform (cfg_demo\<lparr>fGenerateUniformly := True\<rparr>) ext_demo 1 1 gs_demo ev_demo
     = (None, gs_demo\<lparr>rnd_pos := 1\<rparr>, ev_demo) \<and>
   GenerateUniform (cfg_demo\<lparr>fGenerateUniformly := True\<rparr>) ext_demo 1 1 gs_demo
       (ev_demo\<lparr>interaction := SetW (11 / 10) False int_demo\<rparr>)
     = (Some (3 / 2, 1 / 10 + (11 / 10 - 1 / 10) * (1 / 2), 0), gs_demo\<lparr>rnd_pos := 2\<rparr>,
        ev_demo\<lparr>interaction := SetBit kISkipKinematicChk (SetW (11 / 10) False int_demo)\<rparr>)"
  by (simp add: GenerateUniform_def Q2Range_def ApplyCutsToKineLimits_def clamp_def
      cfg_demo_def ext_demo_def ev_demo_def gs_demo_def int_demo_def SetW_def SetKV_def
      SetBit_def Let_def)

text \<open>
  Claim C4, as amended. In the scan of the logarithmic Q2 grid, at the first grid point
  \<open>k\<close> whose sample is strictly below the sample before it (the first one is compared with
  the initial value of \<open>xseclast\<close>), the step is divided by \<open>kNQ2b\<close>, \<open>kNQ2b\<close> backward
  steps are taken from that point, the cross section is sampled at each of them that is not
  below the lower end of the range, the running maximum follows every sample, and the scan
  ends there: the log holds the grid points up to \<open>k\<close>, then the backward points, and
  nothing else. When no sample is strictly below the one before it, the scan samples every
  grid point, keeps its step and takes no backward step.
\<close>

theorem GridScan_refines_on_first_strict_decrease:
  "(k < NQ2 \<and> (\<forall>j<k. PrevSample ext s l j \<le> GridSample ext s l j) \<and>
      GridSample ext s l k < PrevSample ext s l k \<longrightarrow>
      scan_log (GridScan ext W q l 0 s) =
        scan_log s @
        map (\<lambda>j. (W, GridPoint l (dlogQ2 s) j, GridSample ext s l j)) [0..<Suc k] @
        map (\<lambda>Q. (W, Q, SampleXSec ext (scan_int s) Q))
            (SampledBackPoints q kNQ2b (GridPoint l (dlogQ2 s) k) (dlogQ2 s / real kNQ2b)) \<and>
      dlogQ2 (GridScan ext W q l 0 s) = dlogQ2 s / real kNQ2b \<and>
      max_xsec (GridScan ext W q l 0 s) =
        fold max (map (GridSample ext s l) [0..<Suc k] @
                  map (SampleXSec ext (scan_int s))
                      (SampledBackPoints q kNQ2b (GridPoint l (dlogQ2 s) k)
                         (dlogQ2 s / real kNQ2b)))
             (max_xsec s)) \<and>
   ((\<forall>j<NQ2. PrevSample ext s l j \<le> GridSample ext s l j) \<longrightarrow>
      scan_log (GridScan ext W q l 0 s) =
        scan_log s @ map (\<lambda>j. (W, GridPoint l (dlogQ2 s) j, GridSample ext s l j)) [0..<NQ2] \<and>
      dlogQ2 (GridScan ext W q l 0 s) = dlogQ2 s \<and>
      max_xsec (GridScan ext W q l 0 s) =
        fold max (map (GridSample ext s l) [0..<NQ2]) (max_xsec s))"
proof (intro conjI impI)
  assume A: "k < NQ2 \<and> (\<forall>j<k. PrevSample ext s l j \<le> GridSample ext s l j) \<and>
      GridSample ext s l k < PrevSample ext s l k"
  then have 1: "k < NQ2"
    and 3: "\<forall>j. 0 \<le> j \<and> j < k \<longrightarrow>
           (if j = 0 then xseclast s else GridSample ext s l (j - 1)) \<le> GridSample ext s l j"
    and 4: "GridSample ext s l k < (if k = 0 then xseclast s else GridSample ext s l (k - 1))"
    by (simp_all add: PrevSample_def)
  have 2: "0 + k = k" by simp
  from GridScan_refines_at[OF 1 2 3 4, of W q]
  show "scan_log (GridScan ext W q l 0 s) =
        scan_log s @
        map (\<lambda>j. (W, GridPoint l (dlogQ2 s) j, GridSample ext s l j)) [0..<Suc k] @
        map (\<lambda>Q. (W, Q, SampleXSec ext (scan_int s) Q))
            (SampledBackPoints q kNQ2b (GridPoint l (dlogQ2 s) k) (dlogQ2 s / real kNQ2b))"
    and "dlogQ2 (GridScan ext W q l 0 s) = dlogQ2 s / real kNQ2b"
    and "max_xsec (GridScan ext W q l 0 s) =
        fold max (map (GridSample ext s l) [0..<Suc k] @
                  map (SampleXSec ext (scan_int s))
                      (SampledBackPoints q kNQ2b (GridPoint l (dlogQ2 s) k)
                         (dlogQ2 s / real kNQ2b)))
             (max_xsec s)"
    by simp_all
next
  assume "\<forall>j<NQ2. PrevSample ext s l j \<le> GridSample ext s l j"
  then have 2: "\<forall>j. 0 \<le> j \<and> j < NQ2 \<longrightarrow>
           (if j = 0 then xseclast s else GridSample ext s l (j - 1)) \<le> GridSample ext s l j"
    by (simp add: PrevSample_def)
  have 1: "0 + NQ2 = NQ2" by simp
  from GridScan_runs_through[OF 1 2, of W q]
  show "scan_log (GridScan ext W q l 0 s) =
        scan_log s @ map (\<lambda>j. (W, GridPoint l (dlogQ2 s) j, GridSample ext s l j)) [0..<NQ2]"
    and "dlogQ2 (GridScan ext W q l 0 s) = dlogQ2 s"
    and "max_xsec (GridScan ext W q l 0 s) =
        fold max (map (GridSample ext s l) [0..<NQ2]) (max_xsec s)"
    by simp_all
qed

text \<open>
  An example with a strict decrease at the second grid point: the grid starts at Q2 = 1 with
  logarithmic step 1, and the cross section is 1 up to Q2 = 1 and 0 above.
\<close>

theorem GridScan_refines_on_first_strict_decrease_witness:
  "(1::nat) < NQ2 \<and>
   PrevSample ext_peak scan_demo 0 0 \<le> GridSample ext_peak scan_demo 0 0 \<and>
   GridSample ext_peak scan_demo 0 1 < PrevSample ext_peak scan_demo 0 1 \<and>
   dlogQ2 (GridScan ext_peak 1 (1 / 10) 0 0 scan_demo) = 1 / 3"
proof -
  have g0: "GridSample ext_peak scan_demo 0 0 = 1"
    by (simp add: GridSample_def SampleXSec_def GridPoint_def ext_peak_def scan_demo_def
        SetQ2_def SetKV_def)
  have g1: "GridSample ext_peak scan_demo 0 1 = 0"
    by (simp add: GridSample_def SampleXSec_def GridPoint_def ext_peak_def scan_demo_def
        SetQ2_def SetKV_def)
  have g1': "GridSample ext_peak scan_demo 0 (Suc 0) = 0"
    using g1 by simp
  have a: "(1::nat) < NQ2" by (simp add: NQ2_def)
  have b: "\<forall>j<(1::nat). PrevSample ext_peak scan_demo 0 j \<le> GridSample ext_peak scan_demo 0 j"
  proof -
    have "xseclast scan_demo = - 1" by (simp add: scan_demo_def)
    then show ?thesis by (simp add: PrevSample_def g0)
  qed
  have c: "GridSample ext_peak scan_demo 0 1 < PrevSample ext_peak scan_demo 0 1"
    by (simp add: PrevSample_def g0 g1')
  from GridScan_refines_on_first_strict_decrease[of 1 ext_peak scan_demo 0 1 "1 / 10"] a b c
  have "dlogQ2 (GridScan ext_peak 1 (1 / 10) 0 0 scan_demo) = dlogQ2 scan_demo / real kNQ2b"
    by blast
  moreover have "PrevSample ext_peak scan_demo 0 0 \<le> GridSample ext_peak scan_demo 0 0"
    using b by simp
  ultimately show ?thesis using a c by (simp add: scan_demo_def kNQ2b_def)
qed

text \<open>
  The claim as stated fails where a sample equals the one before it. With a constant cross
  section the second sample is not above the first, and still the scan samples all the grid
  points, and only them, and keeps its step.
\<close>

theorem GridScan_equal_samples_counterexample:
  "GridSample ext_demo scan_demo 0 1 \<le> PrevSample ext_demo scan_demo 0 1 \<and>
   map (fst \<circ> snd) (scan_log (GridScan ext_demo 1 (1 / 10) 0 0 scan_demo))
     = map (GridPoint 0 (dlogQ2 scan_demo)) [0..<NQ2] \<and>
   length (scan_log (GridScan ext_demo 1 (1 / 10) 0 0 scan_demo)) = 15 \<and>
   dlogQ2 (GridScan ext_demo 1 (1 / 10) 0 0 scan_demo) = dlogQ2 scan_demo"
proof -
  have X: "XSec ext_demo = (\<lambda>i. 1)" by (simp add: ext_demo_def)
  have L: "xseclast scan_demo \<le> 1" by (simp add: scan_demo_def)
  have E: "scan_log scan_demo = []" by (simp add: scan_demo_def)
  have "GridSample ext_demo scan_demo 0 1 \<le> PrevSample ext_demo scan_demo 0 1"
    by (simp add: PrevSample_def GridSample_def SampleXSec_def X)
  with GridScan_constant[OF X L, of 1 "1 / 10" 0] show ?thesis
    by (simp add: E comp_def NQ2_def)
qed

text \<open>
  Claim C5 does not hold of the code: with the physical W range \<open>[1, 2]\<close> and the user cuts
  \<open>[3, 4]\<close>, wholly outside it, the range after the cuts is empty, and the call ends on
  the failed assertion that precedes the check for an empty range; the flag
  \<open>kNoAvailablePhaseSpace\<close> is not set and no exception is thrown.
\<close>

theorem cut_outside_physical_range_fails_assertion:
  "KineRange ext_demo kKVW (SetBit kISkipProcessChk int_demo) = \<lparr>rmin = 1, rmax = 2\<rparr> \<and>
   WRange (cfg_demo\<lparr>fWmin := 3, fWmax := 4, fWcut := 10\<rparr>) ext_demo
       (SetBit kISkipProcessChk int_demo) = \<lparr>rmin = 2, rmax = 2\<rparr> \<and>
   ProcessEventRecord (cfg_demo\<lparr>fWmin := 3, fWmax := 4, fWcut := 10\<rparr>) ext_demo gs_demo ev_demo
     = Some (AssertFailed, gs_demo,
             ev_demo\<lparr>interaction := SetBit kISkipProcessChk int_demo\<rparr>) \<and>
   EventFlags (ev_demo\<lparr>interaction := SetBit kISkipProcessChk int_demo\<rparr>) = {}"
  by (simp add: ProcessEventRecord_def WRange_def ApplyCutsToKineLimits_def clamp_def
      cfg_demo_def ext_demo_def ev_demo_def Let_def)

text \<open>
  Claim C6. In uniform mode, for a call that returns (an accepted event), the weight stored
  on the record is (phase space volume at acceptance / total cross section of the event)
  times the accepted differential cross section, times the weight the record held on entry.
  The volume is taken at the interaction that holds the accepted W and Q2 as running
  values, with its two trust bits reset. The total cross section is not zero.
\<close>

theorem uniform_mode_event_weight:
  assumes "fGenerateUniformly cfg"
    and "ProcessEventRecord cfg ext gs ev = Some (Returned, gs', ev')"
    and "XSec_tot ev \<noteq> 0"
  shows "\<exists>i2. running i2 kKVW = selected (interaction ev') kKVW \<and>
              running i2 kKVQ2 = selected (interaction ev') kKVQ2 \<and>
              DiffXSec ev' = XSec ext i2 \<and> 0 < DiffXSec ev' \<and>
              Weight ev' =
                (PhaseSpaceVolume ext (ResetBit kISkipKinematicChk (ResetBit kISkipProcessChk i2))
                 / XSec_tot ev) * DiffXSec ev' * Weight ev"
proof -
  from ProcessEventRecord_outcomes[OF assms(2)] have "AcceptedAt cfg ext ev ev'" by simp
  then obtain gW gQ2 ev2 where S: "SameCommitted ev ev2"
    and W: "running (interaction ev2) kKVW = Some gW"
    and Q: "running (interaction ev2) kKVQ2 = Some gQ2"
    and P: "0 < XSec ext (interaction ev2)"
    and E: "ev' = AcceptKinematics cfg ext gW gQ2 (XSec ext (interaction ev2)) ev2"
    unfolding AcceptedAt_def using assms(1) by blast
  have T: "XSec_tot ev2 = XSec_tot ev" "Weight ev2 = Weight ev"
    using S by (simp_all add: SameCommitted_def)
  show ?thesis
  proof (intro exI[of _ "interaction ev2"] conjI)
    show "running (interaction ev2) kKVW = selected (interaction ev') kKVW"
      unfolding E AcceptKinematics_selected using W by simp
    show "running (interaction ev2) kKVQ2 = selected (interaction ev') kKVQ2"
      unfolding E AcceptKinematics_selected using Q by simp
    show "DiffXSec ev' = XSec ext (interaction ev2)"
      unfolding E by (rule AcceptKinematics_DiffXSec)
    show "0 < DiffXSec ev'"
      unfolding E AcceptKinematics_DiffXSec by (rule P)
    show "Weight ev' =
            (PhaseSpaceVolume ext
               (ResetBit kISkipKinematicChk (ResetBit kISkipProcessChk (interaction ev2)))
             / XSec_tot ev) * DiffXSec ev' * Weight ev"
      unfolding E AcceptKinematics_Weight AcceptKinematics_DiffXSec using assms(1) T by simp
  qed
qed

theorem uniform_mode_event_weight_witness:
  "fGenerateUniformly (cfg_demo\<lparr>fGenerateUniformly := True\<rparr>) \<and>
   XSec_tot (ev_demo\<lparr>interaction := SetW (3 / 2) False int_demo\<rparr>) \<noteq> 0 \<and>
   (\<exists>gs' ev'.
      ProcessEventRecord (cfg_demo\<lparr>fGenerateUniformly := True\<rparr>) ext_demo gs_demo
        (ev_demo\<lparr>interaction := SetW (3 / 2) False int_demo\<rparr>) = Some (Returned, gs', ev') \<and>
      (\<exists>i2. DiffXSec ev' = XSec ext_demo i2 \<and>
         Weight ev' =
           (PhaseSpaceVolume ext_demo
              (ResetBit kISkipKinematicChk (ResetBit kISkipProcessChk i2))
            / XSec_tot (ev_demo\<lparr>interaction := SetW (3 / 2) False int_demo\<rparr>))
           * DiffXSec ev' * Weight (ev_demo\<lparr>interaction := SetW (3 / 2) False int_demo\<rparr>)))"
proof -
  have u: "fGenerateUniformly (cfg_demo\<lparr>fGenerateUniformly := True\<rparr>)" by simp
  have t: "XSec_tot (ev_demo\<lparr>interaction := SetW (3 / 2) False int_demo\<rparr>) \<noteq> 0"
    by (simp add: ev_demo_def)
  from uniform_mode_event_weight[OF u demo_uniform_accepted t] u t demo_uniform_accepted
  show ?thesis by blast
qed

text \<open>
  Claim C7. Kinematic values are locked, and the running values cleared, only on acceptance:
  a call that ends in any other way (an exception, a failed assertion, a stop) leaves the
  locked kinematics of the interaction as they were on entry and clears no running value,
  and a call that returns has locked Q2, W, x and y and cleared every running value.
\<close>

theorem kinematics_locked_only_on_acceptance:
  assumes "ProcessEventRecord cfg ext gs ev = Some (out, gs', ev')"
  shows "(out \<noteq> Returned \<longrightarrow>
            selected (interaction ev') = selected (interaction ev) \<and>
            dom (running (interaction ev)) \<subseteq> dom (running (interaction ev'))) \<and>
         (out = Returned \<longrightarrow>
            (\<exists>gW gQ2 gx gy. selected (interaction ev') =
               (selected (interaction ev))(kKVQ2 \<mapsto> gQ2, kKVW \<mapsto> gW, kKVx \<mapsto> gx, kKVy \<mapsto> gy)) \<and>
            running (interaction ev') = Map.empty)"
proof -
  from ProcessEventRecord_outcomes[OF assms] consider
      (same) "out \<noteq> Returned" "SameCommitted ev ev'"
    | (exh) ev1 where "out \<noteq> Returned" "SameCommitted ev ev1"
        "ev' = ev1\<lparr>EventFlags := insert kNoValidKinematics (EventFlags ev1)\<rparr>"
    | (acc) "out = Returned" "AcceptedAt cfg ext ev ev'"
    by auto
  then show ?thesis
  proof cases
    case same
    then show ?thesis by (simp add: SameCommitted_def KeepsKinematics_def)
  next
    case exh
    then show ?thesis by (simp add: SameCommitted_def KeepsKinematics_def)
  next
    case acc
    from acc(2) obtain gW gQ2 ev2 where S: "SameCommitted ev ev2"
      and E: "ev' = AcceptKinematics cfg ext gW gQ2 (XSec ext (interaction ev2)) ev2"
      unfolding AcceptedAt_def by blast
    have sel: "selected (interaction ev2) = selected (interaction ev)"
      using S by (simp add: SameCommitted_def KeepsKinematics_def)
    have "\<exists>gW gQ2 gx gy. selected (interaction ev') =
               (selected (interaction ev))(kKVQ2 \<mapsto> gQ2, kKVW \<mapsto> gW, kKVx \<mapsto> gx, kKVy \<mapsto> gy)"
      unfolding E AcceptKinematics_selected sel by blast
    moreover have "running (interaction ev') = Map.empty"
      unfolding E by (rule AcceptKinematics_running)
    ultimately show ?thesis using acc(1) by simp
  qed
qed

theorem kinematics_locked_only_on_acceptance_witness:
  "\<exists>gs' ev'.
     ProcessEventRecord (cfg_demo\<lparr>fGenerateUniformly := True\<rparr>) ext_demo gs_demo
        (ev_demo\<lparr>interaction := SetW (3 / 2) False int_demo\<rparr>) = Some (Returned, gs', ev') \<and>
     running (interaction ev') = Map.empty \<and>
     (\<exists>gW gQ2 gx gy. selected (interaction ev') =
        (selected (interaction (ev_demo\<lparr>interaction := SetW (3 / 2) False int_demo\<rparr>)))
          (kKVQ2 \<mapsto> gQ2, kKVW \<mapsto> gW, kKVx \<mapsto> gx, kKVy \<mapsto> gy))"
  using kinematics_locked_only_on_acceptance[OF demo_uniform_accepted] demo_uniform_accepted
  by simp

text \<open>
  Claim C8. The upper end of the W range is the minimum of the maximum left by the user
  cuts and the configured Wcut, so it never exceeds Wcut, whatever the user cuts are; the
  lower end is the one left by the user cuts. When the cuts leave \<open>[1.0, 1.5]\<close> and Wcut
  is 1.3 the range is \<open>[1.0, 1.3]\<close>; that is the case for a physical range
  \<open>[1.0, 2.0]\<close> with the user cut W-max at 1.5 and a W-min cut not above 1.0.
\<close>

theorem WRange_max_bounded_by_Wcut:
  "rmax (WRange cfg ext i) =
     min (rmax (ApplyCutsToKineLimits (KineRange ext kKVW i) (fWmin cfg) (fWmax cfg))) (fWcut cfg) \<and>
   rmin (WRange cfg ext i) =
     rmin (ApplyCutsToKineLimits (KineRange ext kKVW i) (fWmin cfg) (fWmax cfg)) \<and>
   rmax (WRange cfg ext i) \<le> fWcut cfg \<and>
   (ApplyCutsToKineLimits (KineRange ext kKVW i) (fWmin cfg) (fWmax cfg)
      = \<lparr>rmin = 1, rmax = 15 / 10\<rparr> \<and> fWcut cfg = 13 / 10 \<longrightarrow>
      WRange cfg ext i = \<lparr>rmin = 1, rmax = 13 / 10\<rparr>) \<and>
   (KineRange ext kKVW i = \<lparr>rmin = 1, rmax = 2\<rparr> \<and> fWmin cfg \<le> 1 \<and> fWmax cfg = 15 / 10 \<and>
      fWcut cfg = 13 / 10 \<longrightarrow> WRange cfg ext i = \<lparr>rmin = 1, rmax = 13 / 10\<rparr>)"
proof (intro conjI impI)
  show "rmax (WRange cfg ext i) =
     min (rmax (ApplyCutsToKineLimits (KineRange ext kKVW i) (fWmin cfg) (fWmax cfg))) (fWcut cfg)"
    by (simp add: WRange_def Let_def min.commute)
  show "rmin (WRange cfg ext i) =
     rmin (ApplyCutsToKineLimits (KineRange ext kKVW i) (fWmin cfg) (fWmax cfg))"
    by (simp add: WRange_def Let_def)
  show "rmax (WRange cfg ext i) \<le> fWcut cfg"
    by (simp add: WRange_def Let_def)
next
  assume "ApplyCutsToKineLimits (KineRange ext kKVW i) (fWmin cfg) (fWmax cfg)
      = \<lparr>rmin = 1, rmax = 15 / 10\<rparr> \<and> fWcut cfg = 13 / 10"
  then show "WRange cfg ext i = \<lparr>rmin = 1, rmax = 13 / 10\<rparr>"
    by (simp add: WRange_def Let_def)
next
  assume "KineRange ext kKVW i = \<lparr>rmin = 1, rmax = 2\<rparr> \<and> fWmin cfg \<le> 1 \<and> fWmax cfg = 15 / 10 \<and>
      fWcut cfg = 13 / 10"
  then show "WRange cfg ext i = \<lparr>rmin = 1, rmax = 13 / 10\<rparr>"
    by (simp add: WRange_def ApplyCutsToKineLimits_def clamp_def Let_def)
qed

theorem WRange_max_bounded_by_Wcut_witness:
  "KineRange ext_demo kKVW int_demo = \<lparr>rmin = 1, rmax = 2\<rparr> \<and>
   fWmin (cfg_demo\<lparr>fWmax := 15 / 10, fWcut := 13 / 10\<rparr>) \<le> 1 \<and>
   fWmax (cfg_demo\<lparr>fWmax := 15 / 10, fWcut := 13 / 10\<rparr>) = 15 / 10 \<and>
   fWcut (cfg_demo\<lparr>fWmax := 15 / 10, fWcut := 13 / 10\<rparr>) = 13 / 10 \<and>
   WRange (cfg_demo\<lparr>fWmax := 15 / 10, fWcut := 13 / 10\<rparr>) ext_demo int_demo
     = \<lparr>rmin = 1, rmax = 13 / 10\<rparr>"
proof -
  have a: "KineRange ext_demo kKVW int_demo = \<lparr>rmin = 1, rmax = 2\<rparr>"
    by (simp add: ext_demo_def)
  have b: "fWmin (cfg_demo\<lparr>fWmax := 15 / 10, fWcut := 13 / 10\<rparr>) \<le> 1"
    by (simp add: cfg_demo_def)
  have c: "fWmax (cfg_demo\<lparr>fWmax := 15 / 10, fWcut := 13 / 10\<rparr>) = 15 / 10" by simp
  have d: "fWcut (cfg_demo\<lparr>fWmax := 15 / 10, fWcut := 13 / 10\<rparr>) = 13 / 10" by simp
  from WRange_max_bounded_by_Wcut
         [of "cfg_demo\<lparr>fWmax := 15 / 10, fWcut := 13 / 10\<rparr>" ext_demo int_demo]
  have "KineRange ext_demo kKVW int_demo = \<lparr>rmin = 1, rmax = 2\<rparr> \<and>
        fWmin (cfg_demo\<lparr>fWmax := 15 / 10, fWcut := 13 / 10\<rparr>) \<le> 1 \<and>
        fWmax (cfg_demo\<lparr>fWmax := 15 / 10, fWcut := 13 / 10\<rparr>) = 15 / 10 \<and>
        fWcut (cfg_demo\<lparr>fWmax := 15 / 10, fWcut := 13 / 10\<rparr>) = 13 / 10 \<longrightarrow>
        WRange (cfg_demo\<lparr>fWmax := 15 / 10, fWcut := 13 / 10\<rparr>) ext_demo int_demo
          = \<lparr>rmin = 1, rmax = 13 / 10\<rparr>"
    by (elim conjE)
  with a b c d show ?thesis by blast
qed

text \<open>
  What the search returns: 0 on a degenerate Q2 range, otherwise the final maximum of the
  scan times the fixed factor 2 for a probe energy below 0.8, and times the configurable
  safety factor otherwise.
\<close>

lemma ComputeMaxXSec_result:
  "fst (ComputeMaxXSec cfg ext i) =
     (case snd (ScanPhaseSpace cfg ext i) of
        None \<Rightarrow> 0
      | Some s \<Rightarrow> max_xsec s * (if ProbeE i < 8 / 10 then 2 else fSafetyFactor cfg))"
  by (cases "ScanPhaseSpace cfg ext i")
     (simp add: ComputeMaxXSec_def Let_def split: option.splits)

text \<open>
  Claim C9 does not hold of the code: the factor used at low energy is the constant 2,
  whatever is configured. With \<^verbatim>\<open>max-xsec-safety-factor\<close> configured as 3 and a constant
  cross section 1, the maximum of the scan is 1 at both energies; the search returns 2 at
  the probe energy 0.5 and 3 at the probe energy 1, so the low energy gets the smaller
  factor.
\<close>

theorem low_energy_factor_smaller_than_configured:
  "LoadConfigData [''max-xsec-safety-factor'' \<mapsto> 3] Map.empty (17 / 10)
     = Some (cfg_demo\<lparr>fSafetyFactor := 3\<rparr>) \<and>
   ProbeE int_demo < 8 / 10 \<and>
   map_option max_xsec (snd (ScanPhaseSpace (cfg_demo\<lparr>fSafetyFactor := 3\<rparr>) ext_demo int_demo)) = Some 1 \<and>
   fst (ComputeMaxXSec (cfg_demo\<lparr>fSafetyFactor := 3\<rparr>) ext_demo int_demo) = 2 \<and>
   \<not> ProbeE (int_demo\<lparr>ProbeE := 1\<rparr>) < 8 / 10 \<and>
   map_option max_xsec
     (snd (ScanPhaseSpace (cfg_demo\<lparr>fSafetyFactor := 3\<rparr>) ext_demo (int_demo\<lparr>ProbeE := 1\<rparr>))) = Some 1 \<and>
   fst (ComputeMaxXSec (cfg_demo\<lparr>fSafetyFactor := 3\<rparr>) ext_demo (int_demo\<lparr>ProbeE := 1\<rparr>)) = 3"
proof -
  have Ld: "LoadConfigData [''max-xsec-safety-factor'' \<mapsto> 3] Map.empty (17 / 10)
     = Some (cfg_demo\<lparr>fSafetyFactor := 3\<rparr>)"
    by (simp add: LoadConfigData_def GetDoubleDef_def GetBoolDef_def cfg_demo_def)
  have X: "XSec ext_demo = (\<lambda>i. 1)" by (simp add: ext_demo_def)
  have M: "max_xsec (GridScan ext_demo W q l 0
             \<lparr>max_xsec = 0, xseclast = - 1, dlogQ2 = d, scan_int = i, scan_log = []\<rparr>) = 1"
    for W q l d i
    using GridScan_constant[OF X, of "\<lparr>max_xsec = 0, xseclast = - 1, dlogQ2 = d, scan_int = i, scan_log = []\<rparr>" W q l]
    by simp
  have W: "WRange (cfg_demo\<lparr>fSafetyFactor := 3\<rparr>) ext_demo (int_demo\<lparr>ProbeE := e\<rparr>)
             = \<lparr>rmin = 1, rmax = 17 / 10\<rparr>" for e
    by (simp add: WRange_def ApplyCutsToKineLimits_def clamp_def Let_def cfg_demo_def ext_demo_def)
  have Q: "Q2Range (cfg_demo\<lparr>fSafetyFactor := 3\<rparr>) ext_demo
             (SetW (123 / 100) False (int_demo\<lparr>ProbeE := e\<rparr>))
             = \<lparr>rmin = 1 / 10, rmax = 123 / 100\<rparr>" for e
    by (simp add: Q2Range_def ApplyCutsToKineLimits_def clamp_def Let_def cfg_demo_def ext_demo_def
        SetW_def SetKV_def)
  have T: "ExclusiveTag (int_demo\<lparr>ProbeE := e\<rparr>) = None" for e by (simp add: int_demo_def)
  have K: "kMinQ2Limit ext_demo = 0" by (simp add: ext_demo_def)
  have S: "map_option max_xsec
             (snd (ScanPhaseSpace (cfg_demo\<lparr>fSafetyFactor := 3\<rparr>) ext_demo (int_demo\<lparr>ProbeE := e\<rparr>)))
           = Some 1" for e
    unfolding ScanPhaseSpace_def Let_def W T
    by (simp add: IsWithinLimits_def Q K M)
  have I: "int_demo\<lparr>ProbeE := 1 / 2\<rparr> = int_demo" by (simp add: int_demo_def)
  have E: "ProbeE int_demo < 8 / 10" by (simp add: int_demo_def)
  have C: "fst (ComputeMaxXSec (cfg_demo\<lparr>fSafetyFactor := 3\<rparr>) ext_demo (int_demo\<lparr>ProbeE := e\<rparr>))
             = (if e < 8 / 10 then 2 else 3)" for e
    using S[of e]
    by (cases "ScanPhaseSpace (cfg_demo\<lparr>fSafetyFactor := 3\<rparr>) ext_demo (int_demo\<lparr>ProbeE := e\<rparr>)")
       (auto simp: ComputeMaxXSec_def Let_def split: option.splits)
  show ?thesis using Ld E S[of "1 / 2"] C[of "1 / 2"] S[of 1] C[of 1] by (simp add: I)
qed

text \<open>
  Claim C10. The assertion on the W range runs before the check for an empty range. So a
  call whose W range is empty (maximum not positive, or minimum not below the maximum) ends
  on the failed assertion; no call ends with the exception of no available phase space, and
  no call sets the flag \<open>kNoAvailablePhaseSpace\<close>.
\<close>

theorem W_assertion_precedes_empty_range_check:
  "(let W = WRange cfg ext (SetBit kISkipProcessChk (interaction ev))
    in rmax W \<le> 0 \<or> rmin W \<ge> rmax W \<longrightarrow>
       ProcessEventRecord cfg ext gs ev =
         Some (AssertFailed, gs, ev\<lparr>interaction := SetBit kISkipProcessChk (interaction ev)\<rparr>)) \<and>
   ProcessEventRecord cfg ext gs ev \<noteq> Some (Thrown NoAvailablePhaseSpaceException, gs', ev') \<and>
   (ProcessEventRecord cfg ext gs ev = Some (out, gs', ev') \<and>
      kNoAvailablePhaseSpace \<in> EventFlags ev' \<longrightarrow> kNoAvailablePhaseSpace \<in> EventFlags ev)"
proof (intro conjI)
  let ?ev1 = "ev\<lparr>interaction := SetBit kISkipProcessChk (interaction ev)\<rparr>"
  let ?W = "WRange cfg ext (SetBit kISkipProcessChk (interaction ev))"
  have "ProcessEventRecord cfg ext gs ev = Some (AssertFailed, gs, ?ev1)"
    if "rmax ?W \<le> 0 \<or> rmin ?W \<ge> rmax ?W"
  proof -
    from that have "\<not> (0 \<le> rmin ?W \<and> rmin ?W < rmax ?W)" by auto
    then show ?thesis by (simp add: ProcessEventRecord_def Let_def)
  qed
  then show "let W = WRange cfg ext (SetBit kISkipProcessChk (interaction ev))
    in rmax W \<le> 0 \<or> rmin W \<ge> rmax W \<longrightarrow>
       ProcessEventRecord cfg ext gs ev =
         Some (AssertFailed, gs, ev\<lparr>interaction := SetBit kISkipProcessChk (interaction ev)\<rparr>)"
    unfolding Let_def by blast
next
  have ne: "KinematicSelectionExhausted \<noteq> NoAvailablePhaseSpaceException"
    by (simp add: KinematicSelectionExhausted_def NoAvailablePhaseSpaceException_def)
  show "ProcessEventRecord cfg ext gs ev \<noteq> Some (Thrown NoAvailablePhaseSpaceException, gs', ev')"
  proof
    assume "ProcessEventRecord cfg ext gs ev = Some (Thrown NoAvailablePhaseSpaceException, gs', ev')"
    from ProcessEventRecord_outcomes[OF this] have
      "Thrown NoAvailablePhaseSpaceException = Thrown KinematicSelectionExhausted" by simp
    with ne show False by simp
  qed
next
  show "ProcessEventRecord cfg ext gs ev = Some (out, gs', ev') \<and>
      kNoAvailablePhaseSpace \<in> EventFlags ev' \<longrightarrow> kNoAvailablePhaseSpace \<in> EventFlags ev"
  proof
    assume A: "ProcessEventRecord cfg ext gs ev = Some (out, gs', ev') \<and>
      kNoAvailablePhaseSpace \<in> EventFlags ev'"
    then have P: "ProcessEventRecord cfg ext gs ev = Some (out, gs', ev')"
      and F: "kNoAvailablePhaseSpace \<in> EventFlags ev'" by simp_all
    from ProcessEventRecord_EventFlags[OF P] F
    show "kNoAvailablePhaseSpace \<in> EventFlags ev" by auto
  qed
qed

theorem W_assertion_precedes_empty_range_check_witness:
  "rmin (WRange (cfg_demo\<lparr>fWcut := 1 / 2\<rparr>) ext_demo (SetBit kISkipProcessChk (interaction ev_demo)))
     \<ge> rmax (WRange (cfg_demo\<lparr>fWcut := 1 / 2\<rparr>) ext_demo (SetBit kISkipProcessChk (interaction ev_demo))) \<and>
   ProcessEventRecord (cfg_demo\<lparr>fWcut := 1 / 2\<rparr>) ext_demo gs_demo ev_demo =
     Some (AssertFailed, gs_demo,
           ev_demo\<lparr>interaction := SetBit kISkipProcessChk (interaction ev_demo)\<rparr>)"
proof -
  have e: "rmin (WRange (cfg_demo\<lparr>fWcut := 1 / 2\<rparr>) ext_demo (SetBit kISkipProcessChk (interaction ev_demo)))
     \<ge> rmax (WRange (cfg_demo\<lparr>fWcut := 1 / 2\<rparr>) ext_demo (SetBit kISkipProcessChk (interaction ev_demo)))"
    by (simp add: WRange_def ApplyCutsToKineLimits_def clamp_def cfg_demo_def ext_demo_def Let_def)
  show ?thesis
    using W_assertion_precedes_empty_range_check
            [of "cfg_demo\<lparr>fWcut := 1 / 2\<rparr>" ext_demo ev_demo gs_demo] e
    by (simp add: Let_def)
qed

end
